theory Spec2Isabelle
  imports Complex_Main
begin

section \<open>JavaScript values used by the engines\<close>

text \<open>
  A JavaScript string is a sequence of UTF-16 code units; \<open>length\<close>, \<open>includes\<close>,
  \<open>split\<close> and the regular expressions of the source (none has the \<open>u\<close> flag) all work
  on code units. A string is therefore a list of code units, each a natural number.
  A JavaScript number is modelled as a real: the arithmetic of the engines is read
  exactly, where the source computes in IEEE 754 doubles. The two agree on the structure
  of every result, on comparisons away from ties and on every range stated below, but not
  on the last digit of a rounded value: with the volume weight 0.0029, no tags, no
  competition and a batch of one keyword, \<open>Math.round(finalScore * 100) / 100\<close> is
  0.14 in doubles and 0.15 in exact arithmetic. Nor does a real stand for NaN or an
  infinity, which \<open>calculateScore\<close> and \<open>normalizeVolume\<close> yield when a divisor
  is zero or a logarithm's argument is not positive; every other division of the source
  sits behind a test that keeps its divisor positive. For these reasons no theorem
  below states the numeric value of a keyword's score: the theorems on
  \<open>calculateScores\<close> are about which fields change and about repeating the call, and
  hold whatever the arithmetic returns.
\<close>

type_synonym jsstring = "nat list"

text \<open>An ASCII literal, for writing concrete inputs.\<close>

definition ascii :: "string \<Rightarrow> jsstring" where
  "ascii s = map of_char s"

text \<open>\<open>s.includes(p)\<close>: \<open>p\<close> occurs in \<open>s\<close> as a contiguous run.\<close>

fun js_includes :: "jsstring \<Rightarrow> jsstring \<Rightarrow> bool" where
  "js_includes [] p = (p = [])"
| "js_includes (c # cs) p = (take (length p) (c # cs) = p \<or> js_includes cs p)"

text \<open>\<open>xs.join(sep)\<close>.\<close>

fun join :: "jsstring \<Rightarrow> jsstring list \<Rightarrow> jsstring" where
  "join sep [] = []"
| "join sep [x] = x"
| "join sep (x # y # ys) = x @ sep @ join sep (y # ys)"

text \<open>\<open>Math.round\<close>: the nearest integer, a tie going up.\<close>

definition Math_round :: "real \<Rightarrow> real" where
  "Math_round x = of_int \<lfloor>x + 1 / 2\<rfloor>"

section \<open>KeywordScorer\<close>

datatype KeywordTag =
  seasonal | event | longtail | trending | brand | category | feature | custom

record Keyword =
  k_id :: jsstring
  k_created_at :: jsstring
  k_updated_at :: jsstring
  k_term :: jsstring
  k_volume :: real
  k_competition :: real
  k_weight :: "real option"
  k_notes :: "jsstring option"
  k_tags :: "KeywordTag list"
  k_score :: "real option"

record AlgorithmWeights =
  w_volume :: real
  w_competition :: real
  w_tag :: real
  w_ctr :: "real option"

record KeywordGroupStats =
  minVolume :: real
  maxVolume :: real
  avgVolume :: real
  minCompetition :: real
  maxCompetition :: real
  avgCompetition :: real
  totalKeywords :: nat

record ScoreBreakdown =
  volumeScore :: real
  competitionPenalty :: real
  tagBonus :: real
  ctrBonus :: "real option"

text \<open>
  The result of \<open>calculateScore\<close>. Its \<open>explanation\<close> field, a text assembled from
  the same numbers and read by no function, is left out.
\<close>

record KeywordScoreResult =
  res_score :: real
  normalizedVolume :: real
  normalizedCompetition :: real
  tagWeight :: real
  res_breakdown :: ScoreBreakdown

text \<open>The object's state: the weights and the statistics of the last non-empty batch.\<close>

record KeywordScorer =
  weights :: AlgorithmWeights
  groupStats :: "KeywordGroupStats option"

definition getDefaultStats :: KeywordGroupStats where
  "getDefaultStats =
     \<lparr>minVolume = 0, maxVolume = 10000, avgVolume = 1000,
      minCompetition = 0, maxCompetition = 100, avgCompetition = 50,
      totalKeywords = 1\<rparr>"

text \<open>
  \<open>calculateGroupStats\<close>: the empty batch returns its defaults and leaves the object
  alone; any other batch stores its statistics in the object.
\<close>

fun calculateGroupStats :: "KeywordScorer \<Rightarrow> Keyword list \<Rightarrow> KeywordGroupStats \<times> KeywordScorer" where
  "calculateGroupStats s [] =
     (\<lparr>minVolume = 0, maxVolume = 1, avgVolume = 0,
       minCompetition = 0, maxCompetition = 1, avgCompetition = 0,
       totalKeywords = 0\<rparr>, s)"
| "calculateGroupStats s (k # ks) =
     (let volumes = map k_volume (k # ks);
          competitions = map k_competition (k # ks);
          stats = \<lparr>minVolume = fold min (tl volumes) (hd volumes),
                   maxVolume = fold max (tl volumes) (hd volumes),
                   avgVolume = sum_list volumes / real (length volumes),
                   minCompetition = fold min (tl competitions) (hd competitions),
                   maxCompetition = fold max (tl competitions) (hd competitions),
                   avgCompetition = sum_list competitions / real (length competitions),
                   totalKeywords = length (k # ks)\<rparr>
      in (stats, s\<lparr>groupStats := Some stats\<rparr>))"

definition normalizeVolume :: "real \<Rightarrow> KeywordGroupStats \<Rightarrow> real" where
  "normalizeVolume v stats =
     (if maxVolume stats = minVolume stats then 1 / 2
      else (let logVolume = ln (v + 1);
                logMin = ln (minVolume stats + 1);
                logMax = ln (maxVolume stats + 1)
            in (logVolume - logMin) / (logMax - logMin)))"

fun tagWeights :: "KeywordTag \<Rightarrow> real" where
  "tagWeights trending = 8 / 10"
| "tagWeights longtail = 6 / 10"
| "tagWeights seasonal = 4 / 10"
| "tagWeights event = 3 / 10"
| "tagWeights brand = 7 / 10"
| "tagWeights category = 5 / 10"
| "tagWeights feature = 4 / 10"
| "tagWeights custom = 2 / 10"

definition calculateTagWeight :: "KeywordTag list \<Rightarrow> real" where
  "calculateTagWeight ts =
     (if length ts = 0 then 0
      else (let totalWeight = sum_list (map tagWeights ts);
                avgWeight = totalWeight / real (length ts);
                tagCountBonus = min (real (length ts) / 3) 1 * (2 / 10)
            in min 1 (avgWeight + tagCountBonus)))"

text \<open>
  \<open>keyword.weight && this.weights.ctr\<close>: both present and neither zero.
\<close>

definition truthy :: "real option \<Rightarrow> bool" where
  "truthy x = (case x of None \<Rightarrow> False | Some v \<Rightarrow> v \<noteq> 0)"

definition calculateScore :: "KeywordScorer \<Rightarrow> Keyword \<Rightarrow> KeywordGroupStats option \<Rightarrow> KeywordScoreResult" where
  "calculateScore s keyword gs =
     (let stats = (case gs of Some g \<Rightarrow> g
                   | None \<Rightarrow> (case groupStats s of Some g \<Rightarrow> g | None \<Rightarrow> getDefaultStats));
          nVolume = normalizeVolume (k_volume keyword) stats;
          nCompetition = k_competition keyword / 100;
          tWeight = calculateTagWeight (k_tags keyword);
          vScore = nVolume * w_volume (weights s);
          cPenalty = nCompetition * w_competition (weights s);
          tBonus = tWeight * w_tag (weights s);
          cBonus = (if truthy (k_weight keyword) \<and> truthy (w_ctr (weights s))
                    then the (k_weight keyword) * the (w_ctr (weights s)) else 0);
          rawScore = (vScore + tBonus + cBonus) / (cPenalty + 1);
          finalScore = min 100 (max 0 (rawScore * 100))
      in \<lparr>res_score = Math_round (finalScore * 100) / 100,
          normalizedVolume = nVolume,
          normalizedCompetition = nCompetition,
          tagWeight = tWeight,
          res_breakdown = \<lparr>volumeScore = vScore, competitionPenalty = cPenalty,
                            tagBonus = tBonus,
                            ctrBonus = (if cBonus > 0 then Some cBonus else None)\<rparr>\<rparr>)"

definition calculateScores :: "KeywordScorer \<Rightarrow> Keyword list \<Rightarrow> Keyword list \<times> KeywordScorer" where
  "calculateScores s keywords =
     (let (stats, s') = calculateGroupStats s keywords
      in (map (\<lambda>keyword. keyword\<lparr>k_score := Some (res_score (calculateScore s' keyword (Some stats)))\<rparr>)
              keywords, s'))"

subsection \<open>Scenario data\<close>

text \<open>
  The first keyword of the specification's scenarios: "smartphone" (in Hangul), of volume
  10000 and competition 85.
\<close>

definition scenarioA_phone :: Keyword where
  "scenarioA_phone =
     \<lparr>k_id = ascii ''k1'', k_created_at = [], k_updated_at = [],
      k_term = [0xc2a4, 0xb9c8, 0xd2b8, 0xd3f0],
      k_volume = 10000, k_competition = 85, k_weight = None, k_notes = None, k_tags = [],
      k_score = None\<rparr>"

section \<open>Built-in operations taken as parameters\<close>

text \<open>
  Two built-ins of the language are parameters of the model, so that every theorem
  holds for whatever they compute:
  \<^item> \<open>lc\<close> stands for \<open>String.prototype.toLowerCase\<close>;
  \<^item> \<open>re p t\<close> stands for \<open>new RegExp(p, 'gi').test(t)\<close>, with \<open>None\<close> when the
    pattern does not compile and the constructor throws a SyntaxError.

  For concrete inputs, \<open>ascii_lower\<close> lowers the Basic Latin capitals and leaves every
  other code unit alone, which is what \<open>toLowerCase\<close> does on a text of ASCII and
  Hangul; \<open>literal_re\<close> is the regular-expression search for a pattern without
  metacharacters on a text without letter case, substring search.
\<close>

definition ascii_lower :: "jsstring \<Rightarrow> jsstring" where
  "ascii_lower s = map (\<lambda>c. if 65 \<le> c \<and> c \<le> 90 then c + 32 else c) s"

definition literal_re :: "jsstring \<Rightarrow> jsstring \<Rightarrow> bool option" where
  "literal_re p t = Some (js_includes t p)"

datatype js_error = SyntaxError jsstring | Error jsstring

section \<open>Product title components\<close>

record ProductTitleComponents =
  c_category :: "jsstring option"
  c_demographic :: "jsstring option"
  c_keywords :: "jsstring list"
  c_features :: "jsstring list option"
  c_usage :: "jsstring option"

text \<open>A string in a condition: present and not empty. \<open>x || ''\<close>: the string, or the empty one.\<close>

definition str_truthy :: "jsstring option \<Rightarrow> bool" where
  "str_truthy x = (case x of None \<Rightarrow> False | Some s \<Rightarrow> s \<noteq> [])"

definition str_or_empty :: "jsstring option \<Rightarrow> jsstring" where
  "str_or_empty x = (case x of None \<Rightarrow> [] | Some s \<Rightarrow> s)"

section \<open>CategoryRecommender\<close>

datatype AttributeType = AText | ANumber | ASelect | ABoolean

record CategoryAttribute =
  a_name :: jsstring
  a_type :: AttributeType
  a_required :: bool
  a_options :: "jsstring list option"
  a_placeholder :: "jsstring option"

record CategoryRule =
  categoryName :: jsstring
  r_keywords :: "jsstring list"
  r_patterns :: "jsstring list"
  r_weight :: real
  r_confidence :: real
  r_reason :: jsstring
  r_attributes :: "CategoryAttribute list"

text \<open>
  A suggestion. Its \<open>id\<close>, \<open>created_at\<close> and \<open>updated_at\<close> are readings of the clock
  and of the random generator that no function reads; they are left out.
\<close>

record CategorySuggestion =
  s_name :: jsstring
  s_reasons :: "jsstring list"
  s_attributes :: "CategoryAttribute list"
  s_confidence :: real

record CategoryScoreBreakdown =
  keywordScore :: real
  patternScore :: real
  frequencyScore :: real
  finalScore :: real

record CategoryRecommendationDetail =
  suggestion :: CategorySuggestion
  matchedRules :: "CategoryRule list"
  keywordMatches :: "jsstring list"
  patternMatches :: "jsstring list"
  scoreBreakdown :: CategoryScoreBreakdown

text \<open>\<open>generateReasons\<close>: the rule's reason, the matched keywords, a note on patterns.\<close>

definition generateReasons :: "CategoryRule \<Rightarrow> jsstring list \<Rightarrow> jsstring list \<Rightarrow> jsstring list" where
  "generateReasons rule kMatches pMatches =
     [r_reason rule]
     @ (if length kMatches > 0
        then [[0x27] @ join [0x2c, 0x20] kMatches
              @ [0x27, 0x20, 0xd0a4, 0xc6cc, 0xb4dc, 0xac00, 0x20, 0xb9e4, 0xce6d, 0xb428]]
        else [])
     @ (if length pMatches > 0
        then [[0xc0c1, 0xd488, 0x20, 0xd2b9, 0xc131, 0x20, 0xd328, 0xd134, 0xc774, 0x20,
               0xc77c, 0xce58, 0xd568]]
        else [])"

definition extractAdditionalTexts ::
  "(jsstring \<Rightarrow> jsstring) \<Rightarrow> ProductTitleComponents option \<Rightarrow> jsstring list" where
  "extractAdditionalTexts lc comps =
     (case comps of None \<Rightarrow> []
      | Some c \<Rightarrow>
          (if str_truthy (c_category c) then [lc (the (c_category c))] else [])
          @ (if str_truthy (c_demographic c) then [lc (the (c_demographic c))] else [])
          @ (case c_features c of None \<Rightarrow> [] | Some fs \<Rightarrow> map lc fs)
          @ (if str_truthy (c_usage c) then [lc (the (c_usage c))] else []))"

text \<open>\<open>k.score || 0\<close>.\<close>

definition score_or_0 :: "Keyword \<Rightarrow> real" where
  "score_or_0 k = (case k_score k of None \<Rightarrow> 0 | Some v \<Rightarrow> v)"

text \<open>
  The steps of \<open>evaluateRule\<close>, in the source's order. Step 1: the rule's keywords
  whose lower-cased form occurs in the joined text.
\<close>

definition matchKeywords :: "(jsstring \<Rightarrow> jsstring) \<Rightarrow> CategoryRule \<Rightarrow> jsstring \<Rightarrow> jsstring list" where
  "matchKeywords lc rule allText = filter (\<lambda>keyword. js_includes allText (lc keyword)) (r_keywords rule)"

text \<open>
  Step 2: the patterns that match, in order; the first pattern that does not compile
  ends the evaluation with its error.
\<close>

fun matchPatterns ::
  "(jsstring \<Rightarrow> jsstring \<Rightarrow> bool option) \<Rightarrow> jsstring \<Rightarrow> jsstring list \<Rightarrow> js_error + jsstring list" where
  "matchPatterns re allText [] = Inr []"
| "matchPatterns re allText (p # ps) =
     (case re p allText of
        None \<Rightarrow> Inl (SyntaxError p)
      | Some b \<Rightarrow>
          (case matchPatterns re allText ps of
             Inl e \<Rightarrow> Inl e
           | Inr ms \<Rightarrow> Inr (if b then p # ms else ms)))"

text \<open>
  Step 3: over the keywords scoring above 70 whose lower-cased term contains a matched
  rule keyword, the sum of score/100; divided by the number of keywords (at least 1)
  and capped at 1.
\<close>

definition frequencyOf :: "(jsstring \<Rightarrow> jsstring) \<Rightarrow> jsstring list \<Rightarrow> Keyword list \<Rightarrow> real" where
  "frequencyOf lc kMatches keywords =
     (let highScoreKeywords = filter (\<lambda>k. score_or_0 k > 70) keywords;
          total = sum_list (map (\<lambda>keyword. score_or_0 keyword / 100)
                     (filter (\<lambda>keyword. list_ex (\<lambda>m. js_includes (lc (k_term keyword)) (lc m)) kMatches)
                        highScoreKeywords))
      in min 1 (total / max 1 (real (length keywords))))"

definition evaluateRule ::
  "(jsstring \<Rightarrow> jsstring) \<Rightarrow> (jsstring \<Rightarrow> jsstring \<Rightarrow> bool option) \<Rightarrow> CategoryRule \<Rightarrow> jsstring list
     \<Rightarrow> Keyword list \<Rightarrow> js_error + CategoryRecommendationDetail" where
  "evaluateRule lc re rule texts keywords =
     (let allText = join [0x20] texts;
          kMatches = matchKeywords lc rule allText;
          kScore = (if length (r_keywords rule) > 0
                    then real (length kMatches) / real (length (r_keywords rule)) else 0)
      in case matchPatterns re allText (r_patterns rule) of
           Inl e \<Rightarrow> Inl e
         | Inr pMatches \<Rightarrow>
             (let pScore = (if length (r_patterns rule) > 0
                            then real (length pMatches) / real (length (r_patterns rule)) else 0);
                  fScore = frequencyOf lc kMatches keywords;
                  final = (kScore * (4 / 10) + pScore * (3 / 10) + fScore * (3 / 10))
                            * r_weight rule * (r_confidence rule / 100)
              in Inr \<lparr>suggestion =
                         \<lparr>s_name = categoryName rule,
                          s_reasons = generateReasons rule kMatches pMatches,
                          s_attributes = r_attributes rule,
                          s_confidence = Math_round (final * 100)\<rparr>,
                       matchedRules = [rule],
                       keywordMatches = kMatches,
                       patternMatches = pMatches,
                       scoreBreakdown =
                         \<lparr>keywordScore = kScore, patternScore = pScore,
                          frequencyScore = fScore, finalScore = final\<rparr>\<rparr>))"

text \<open>\<open>calculateCategoryScores\<close>: the rules in order, those scoring 0 dropped.\<close>

fun calculateCategoryScores ::
  "(jsstring \<Rightarrow> jsstring) \<Rightarrow> (jsstring \<Rightarrow> jsstring \<Rightarrow> bool option) \<Rightarrow> CategoryRule list \<Rightarrow> jsstring list
     \<Rightarrow> Keyword list \<Rightarrow> js_error + CategoryRecommendationDetail list" where
  "calculateCategoryScores lc re [] texts keywords = Inr []"
| "calculateCategoryScores lc re (rule # rules) texts keywords =
     (case evaluateRule lc re rule texts keywords of
        Inl e \<Rightarrow> Inl e
      | Inr detail \<Rightarrow>
          (case calculateCategoryScores lc re rules texts keywords of
             Inl e \<Rightarrow> Inl e
           | Inr results \<Rightarrow>
               Inr (if finalScore (scoreBreakdown detail) > 0 then detail # results else results)))"

text \<open>
  \<open>recommendCategories\<close>. The sort is the stable sort of the language by descending
  final score; \<open>this.rules\<close> is the parameter \<open>rules\<close>.
\<close>

definition recommendCategories ::
  "(jsstring \<Rightarrow> jsstring) \<Rightarrow> (jsstring \<Rightarrow> jsstring \<Rightarrow> bool option) \<Rightarrow> CategoryRule list \<Rightarrow> Keyword list
     \<Rightarrow> ProductTitleComponents option \<Rightarrow> nat \<Rightarrow> js_error + CategoryRecommendationDetail list" where
  "recommendCategories lc re rules keywords comps maxSuggestions =
     (let keywordTexts = map (\<lambda>k. lc (k_term k)) keywords;
          additionalTexts = extractAdditionalTexts lc comps;
          allTexts = keywordTexts @ additionalTexts
      in case calculateCategoryScores lc re rules allTexts keywords of
           Inl e \<Rightarrow> Inl e
         | Inr categoryScores \<Rightarrow>
             Inr (take maxSuggestions
                    (sort_key (\<lambda>d. - finalScore (scoreBreakdown d)) categoryScores)))"

subsection \<open>The frequency score as the specification words it\<close>

text \<open>
  Written from the specification, not from the source: the sum of score/100 over the
  keywords whose term is a substring of some matched rule keyword and whose score
  exceeds 70, divided by max(1, number of keywords), capped at 1.
\<close>

definition spec_frequencyScore :: "jsstring list \<Rightarrow> Keyword list \<Rightarrow> real" where
  "spec_frequencyScore matched keywords =
     min 1 ((\<Sum>k\<leftarrow>keywords.
               if (\<exists>m\<in>set matched. js_includes m (k_term k)) \<and> 70 < score_or_0 k
               then score_or_0 k / 100 else 0)
            / max 1 (real (length keywords)))"

text \<open>
  The same with the inclusion the other way round and both sides lower-cased: the
  keywords whose lower-cased term contains some matched rule keyword, lower-cased.
\<close>

definition amended_frequencyScore ::
  "(jsstring \<Rightarrow> jsstring) \<Rightarrow> jsstring list \<Rightarrow> Keyword list \<Rightarrow> real" where
  "amended_frequencyScore lc matched keywords =
     min 1 ((\<Sum>k\<leftarrow>keywords.
               if (\<exists>m\<in>set matched. js_includes (lc (k_term k)) (lc m)) \<and> 70 < score_or_0 k
               then score_or_0 k / 100 else 0)
            / max 1 (real (length keywords)))"

subsection \<open>Rules of the default table\<close>

text \<open>
  Two rules of the default table, the one for smartphones and tablets and the one for
  processed food; their attribute lists, which no score reads, are left empty. Their
  patterns are plain Hangul words.
\<close>

definition rule_phone :: CategoryRule where
  "rule_phone =
     \<lparr>categoryName = [0xc2a4, 0xb9c8, 0xd2b8, 0xd3f0, 0x2f, 0xd0dc, 0xbe14, 0xb9bf],
      r_keywords = [[0xc2a4, 0xb9c8, 0xd2b8, 0xd3f0], [0xd3f0], [0xc544, 0xc774, 0xd3f0],
                    [0xac24, 0xb7ed, 0xc2dc], [0xd0dc, 0xbe14, 0xb9bf],
                    [0xc544, 0xc774, 0xd328, 0xb4dc]],
      r_patterns = [[0xc2a4, 0xb9c8, 0xd2b8, 0xd3f0], [0xc544, 0xc774, 0xd3f0],
                    [0xac24, 0xb7ed, 0xc2dc], [0xd0dc, 0xbe14, 0xb9bf]],
      r_weight = 1, r_confidence = 90,
      r_reason = [0xbaa8, 0xbc14, 0xc77c, 0x20, 0xb514, 0xbc14, 0xc774, 0xc2a4, 0x20, 0xad00,
                  0xb828, 0x20, 0xd0a4, 0xc6cc, 0xb4dc, 0xac00, 0x20, 0xd3ec, 0xd568, 0xb428],
      r_attributes = []\<rparr>"

definition rule_food :: CategoryRule where
  "rule_food =
     \<lparr>categoryName = [0xac00, 0xacf5, 0xc2dd, 0xd488],
      r_keywords = [[0xb77c, 0xba74], [0xacfc, 0xc790], [0xc74c, 0xb8cc], [0xcee4, 0xd53c],
                    [0xcc28], [0xc989, 0xc11d], [0xb0c9, 0xb3d9]],
      r_patterns = [[0xb77c, 0xba74], [0xacfc, 0xc790], [0xc74c, 0xb8cc], [0xc989, 0xc11d],
                    [0xb0c9, 0xb3d9]],
      r_weight = 1, r_confidence = 82,
      r_reason = [0xac00, 0xacf5, 0xc2dd, 0xd488, 0x20, 0xad00, 0xb828, 0x20, 0xd0a4, 0xc6cc,
                  0xb4dc, 0xac00, 0x20, 0xd3ec, 0xd568, 0xb428],
      r_attributes = []\<rparr>"

text \<open>A scored keyword whose term is the Hangul for "smartphone case", score 80.\<close>

definition kw_phone_case :: Keyword where
  "kw_phone_case =
     \<lparr>k_id = ascii ''k3'', k_created_at = [], k_updated_at = [],
      k_term = [0xc2a4, 0xb9c8, 0xd2b8, 0xd3f0, 0x20, 0xcf00, 0xc774, 0xc2a4],
      k_volume = 1000, k_competition = 40, k_weight = None, k_notes = None, k_tags = [],
      k_score = Some 80\<rparr>"

text \<open>The detail that the smartphone rule yields for that keyword alone.\<close>

definition phone_detail :: CategoryRecommendationDetail where
  "phone_detail =
     \<lparr>suggestion =
        \<lparr>s_name = categoryName rule_phone,
         s_reasons = generateReasons rule_phone [[0xc2a4, 0xb9c8, 0xd2b8, 0xd3f0], [0xd3f0]]
                       [[0xc2a4, 0xb9c8, 0xd2b8, 0xd3f0]],
         s_attributes = [], s_confidence = 40\<rparr>,
      matchedRules = [rule_phone],
      keywordMatches = [[0xc2a4, 0xb9c8, 0xd2b8, 0xd3f0], [0xd3f0]],
      patternMatches = [[0xc2a4, 0xb9c8, 0xd2b8, 0xd3f0]],
      scoreBreakdown = \<lparr>keywordScore = 1 / 3, patternScore = 1 / 4, frequencyScore = 4 / 5,
                          finalScore = 807 / 2000\<rparr>\<rparr>"

section \<open>TitleGenerator\<close>

subsection \<open>Character classes and string operations of the source's regular expressions\<close>

text \<open>
  \<open>\s\<close>: the white space and line terminators of the language. \<open>[A-Za-z]\<close>,
  \<open>[0-9]\<close> (also \<open>\d\<close>), \<open>[A-Z]\<close>, \<open>\w\<close> and the Hangul syllables from U+AC00 to
  U+D7A3.
\<close>

definition is_space :: "nat \<Rightarrow> bool" where
  "is_space c =
     (c = 0x9 \<or> c = 0xa \<or> c = 0xb \<or> c = 0xc \<or> c = 0xd \<or> c = 0x20 \<or> c = 0xa0
      \<or> c = 0x1680 \<or> (0x2000 \<le> c \<and> c \<le> 0x200a) \<or> c = 0x2028 \<or> c = 0x2029
      \<or> c = 0x202f \<or> c = 0x205f \<or> c = 0x3000 \<or> c = 0xfeff)"

definition is_latin :: "nat \<Rightarrow> bool" where
  "is_latin c = ((0x41 \<le> c \<and> c \<le> 0x5a) \<or> (0x61 \<le> c \<and> c \<le> 0x7a))"

definition is_digit :: "nat \<Rightarrow> bool" where
  "is_digit c = (0x30 \<le> c \<and> c \<le> 0x39)"

definition is_upper :: "nat \<Rightarrow> bool" where
  "is_upper c = (0x41 \<le> c \<and> c \<le> 0x5a)"

definition is_word :: "nat \<Rightarrow> bool" where
  "is_word c = (is_latin c \<or> is_digit c \<or> c = 0x5f)"

definition is_hangul :: "nat \<Rightarrow> bool" where
  "is_hangul c = (0xac00 \<le> c \<and> c \<le> 0xd7a3)"

text \<open>
  \<open>text.split(/\s+/)\<close>: the pieces between the maximal runs of white space; a run at
  either end leaves an empty piece there, and the empty string gives one empty piece.
  \<open>split_from cur s\<close> reads \<open>s\<close> with the piece \<open>cur\<close> begun.
\<close>

fun split_from :: "jsstring \<Rightarrow> jsstring \<Rightarrow> jsstring list" where
  "split_from cur [] = [cur]"
| "split_from cur [c] = (if is_space c then [cur, []] else [cur @ [c]])"
| "split_from cur (c # d # cs) =
     (if is_space c
      then (if is_space d then split_from cur (d # cs) else cur # split_from [] (d # cs))
      else split_from (cur @ [c]) (d # cs))"

definition split_ws :: "jsstring \<Rightarrow> jsstring list" where
  "split_ws s = split_from [] s"

text \<open>\<open>s.trim()\<close>.\<close>

definition trim :: "jsstring \<Rightarrow> jsstring" where
  "trim s = rev (dropWhile is_space (rev (dropWhile is_space s)))"

text \<open>\<open>s.replace(/\s+/g, ' ')\<close>: every maximal run of white space becomes one space.\<close>

fun collapse_ws :: "jsstring \<Rightarrow> jsstring" where
  "collapse_ws [] = []"
| "collapse_ws [c] = (if is_space c then [0x20] else [c])"
| "collapse_ws (c # d # cs) =
     (if is_space c
      then (if is_space d then collapse_ws (d # cs) else 0x20 # collapse_ws (d # cs))
      else c # collapse_ws (d # cs))"

text \<open>
  \<open>s.replace(/([P])([Q])/g, '$1 $2')\<close>: from left to right, a code unit of class \<open>P\<close>
  followed by one of class \<open>Q\<close> gets a space between them, and the search goes on after
  the pair.
\<close>

fun insert_between :: "(nat \<Rightarrow> bool) \<Rightarrow> (nat \<Rightarrow> bool) \<Rightarrow> jsstring \<Rightarrow> jsstring" where
  "insert_between P Q (c # d # cs) =
     (if P c \<and> Q d then c # 0x20 # d # insert_between P Q cs
      else c # insert_between P Q (d # cs))"
| "insert_between P Q cs = cs"

text \<open>\<open>xs.findIndex(p)\<close>, with \<open>None\<close> for -1.\<close>

fun findIndex :: "('a \<Rightarrow> bool) \<Rightarrow> 'a list \<Rightarrow> nat option" where
  "findIndex p [] = None"
| "findIndex p (x # xs) = (if p x then Some 0 else map_option Suc (findIndex p xs))"

text \<open>The decimal numeral of a natural number, as a template literal prints it.\<close>

function decimal :: "nat \<Rightarrow> jsstring" where
  "decimal n = (if n < 10 then [0x30 + n] else decimal (n div 10) @ [0x30 + n mod 10])"
  by pat_completeness auto
termination
  by (relation "measure (\<lambda>n. n)") auto

subsection \<open>Data\<close>

datatype ComponentKey = KeyCategory | KeyDemographic | KeyKeywords | KeyFeatures | KeyUsage

record TitleTemplate =
  t_name :: jsstring
  t_pattern :: jsstring
  required_components :: "ComponentKey list"
  max_length :: nat
  separator :: jsstring

text \<open>The configuration; lengths and counts are natural numbers.\<close>

record TitleGenerationConfig =
  template :: TitleTemplate
  stopwords :: "jsstring list"
  maxLength :: nat
  minKeywords :: nat
  maxKeywords :: nat
  prioritizeKeywords :: bool
  removeDuplicates :: bool
  cfg_generateSpacingVariants :: bool

record SpacingVariants =
  spaced :: jsstring
  unspaced :: jsstring

text \<open>
  A product title. Its \<open>id\<close>, \<open>created_at\<close> and \<open>updated_at\<close> are readings of the
  clock and of the random generator that no function reads; they are left out.
\<close>

record ProductTitle =
  keyword_ids :: "jsstring list"
  components :: ProductTitleComponents
  title_text :: jsstring
  score :: real
  issues :: "jsstring list"
  spacing_variants :: "SpacingVariants option"

record QualityBreakdown =
  keywordPlacement :: real
  readability :: real
  b_length :: real
  uniqueness :: real

record TitleQualityScore =
  q_overall :: real
  q_breakdown :: QualityBreakdown
  q_issues :: "jsstring list"
  q_suggestions :: "jsstring list"

text \<open>
  What \<open>generateTitles\<close> returns: the object spread \<open>{...title, ...evaluateTitle(..)}\<close>,
  a product title with the properties of the evaluation added.
\<close>

record ScoredTitle = ProductTitle +
  overall :: real
  breakdown :: QualityBreakdown
  suggestions :: "jsstring list"

record FormError =
  field :: jsstring
  message :: jsstring

record ValidationResult =
  isValid :: bool
  errors :: "FormError list"

definition DEFAULT_TITLE_CONFIG :: TitleGenerationConfig where
  "DEFAULT_TITLE_CONFIG =
     \<lparr>template =
        \<lparr>t_name = [0xae30, 0xbcf8, 0x20, 0xd15c, 0xd50c, 0xb9bf],
         t_pattern = ascii ''{keywords} {category} {features} {usage}'',
         required_components = [KeyKeywords],
         max_length = 60,
         separator = [0x20]\<rparr>,
      stopwords =
        [[0xbb34, 0xb8cc], [0xd560, 0xc778], [0xc774, 0xbca4, 0xd2b8], [0xc99d, 0xc815],
         [0xb2f9, 0xcca8], [0xacf5, 0xc9dc], [0xcd5c, 0xc800, 0xac00], [0xd2b9, 0xac00],
         ascii ''free'', ascii ''sale'', ascii ''discount'', ascii ''win'', ascii ''prize'',
         ascii ''cheap''],
      maxLength = 60,
      minKeywords = 1,
      maxKeywords = 3,
      prioritizeKeywords = True,
      removeDuplicates = True,
      cfg_generateSpacingVariants = True\<rparr>"

subsection \<open>Spacing\<close>

definition normalizeSpacing :: "jsstring \<Rightarrow> jsstring" where
  "normalizeSpacing text =
     trim (insert_between is_digit is_hangul
            (insert_between is_latin is_hangul
              (insert_between is_hangul is_latin (collapse_ws text))))"

definition removeSpacing :: "jsstring \<Rightarrow> jsstring" where
  "removeSpacing text = filter (\<lambda>c. \<not> is_space c) text"

definition generateSpacingVariants :: "jsstring \<Rightarrow> SpacingVariants" where
  "generateSpacingVariants title =
     (let spaced = normalizeSpacing title;
          unspaced = removeSpacing spaced
      in \<lparr>spaced = spaced, unspaced = unspaced\<rparr>)"

text \<open>No two consecutive code units of a string are both white space.\<close>

fun no_adjacent_spaces :: "jsstring \<Rightarrow> bool" where
  "no_adjacent_spaces (c # d # cs) = (\<not> (is_space c \<and> is_space d) \<and> no_adjacent_spaces (d # cs))"
| "no_adjacent_spaces cs = True"

subsection \<open>Quality evaluation\<close>

definition getKeywordsFromTitle :: "jsstring \<Rightarrow> jsstring list" where
  "getKeywordsFromTitle title = take 3 (split_ws title)"

definition evaluateKeywordPlacement ::
  "TitleGenerationConfig \<Rightarrow> (jsstring \<Rightarrow> jsstring) \<Rightarrow> jsstring \<Rightarrow> real" where
  "evaluateKeywordPlacement cfg lc title =
     (let words = split_ws title
      in if length words = 0 then 0
         else (let keywordTerms =
                     (if KeyKeywords \<in> set (required_components (template cfg))
                      then getKeywordsFromTitle title else []);
                   total = sum_list (map (\<lambda>keyword.
                       (case findIndex (\<lambda>word. js_includes (lc word) (lc keyword)) words of
                          None \<Rightarrow> 0
                        | Some position \<Rightarrow>
                            max 0 (1 - real position / real (length words)))) keywordTerms)
               in if length keywordTerms > 0 then total / real (length keywordTerms)
                  else 1 / 2))"

text \<open>\<open>/[A-Z]{3,}/.test(title)\<close>.\<close>

fun upper_run :: "jsstring \<Rightarrow> bool" where
  "upper_run (a # b # c # cs) =
     ((is_upper a \<and> is_upper b \<and> is_upper c) \<or> upper_run (b # c # cs))"
| "upper_run cs = False"

definition evaluateReadability :: "jsstring \<Rightarrow> real" where
  "evaluateReadability title =
     (let s0 = 1;
          s1 = (if length title < 10 \<or> length title > 80 then s0 - 3 / 10 else s0);
          wordCount = length (split_ws title);
          s2 = (if wordCount < 2 \<or> wordCount > 12 then s1 - 2 / 10 else s1);
          specialCharCount =
            length (filter (\<lambda>c. \<not> (is_word c \<or> is_space c \<or> is_hangul c)) title);
          s3 = (if specialCharCount > 3 then s2 - 2 / 10 else s2);
          s4 = (if upper_run title then s3 - 1 / 10 else s3)
      in max 0 s4)"

definition evaluateLengthScore :: "TitleGenerationConfig \<Rightarrow> jsstring \<Rightarrow> real" where
  "evaluateLengthScore cfg title =
     (let len = real (length title);
          maxLen = real (maxLength cfg)
      in if len > maxLen then 0
         else (let idealMin = maxLen * (6 / 10);
                   idealMax = maxLen * (9 / 10)
               in if len \<ge> idealMin \<and> len \<le> idealMax then 1
                  else if len < idealMin then len / idealMin
                  else 1 - ((len - idealMax) / (maxLen - idealMax)) * (3 / 10)))"

definition commonPhrases :: "jsstring list" where
  "commonPhrases =
     [[0xcd5c, 0xace0], [0xcd5c, 0xc800, 0xac00], [0xd2b9, 0xac00], [0xd560, 0xc778],
      [0xc774, 0xbca4, 0xd2b8], [0xbb34, 0xb8cc, 0xbc30, 0xc1a1]]"

definition evaluateUniqueness :: "jsstring \<Rightarrow> real" where
  "evaluateUniqueness title =
     (let s1 = fold (\<lambda>phrase s. if js_includes title phrase then s - 1 / 10 else s)
                 commonPhrases 1;
          numberCount = length (filter is_digit title);
          s2 = (if numberCount > 5 then s1 - 1 / 10 else s1)
      in max 0 s2)"

text \<open>The issue and suggestion texts of \<open>analyzeIssues\<close>, in the source's order.\<close>

definition issue_placement :: jsstring where
  "issue_placement = [0xd0a4, 0xc6cc, 0xb4dc, 0xac00, 0x20, 0xb4a4, 0xcabd, 0xc5d0, 0x20, 0xbc30,
     0xce58, 0xb418, 0xc5b4, 0x20, 0xc788, 0xc2b5, 0xb2c8, 0xb2e4]"

definition suggestion_placement :: jsstring where
  "suggestion_placement = [0xc911, 0xc694, 0xd55c, 0x20, 0xd0a4, 0xc6cc, 0xb4dc, 0xb97c, 0x20,
     0xc81c, 0xbaa9, 0x20, 0xc55e, 0xbd80, 0xbd84, 0xc5d0, 0x20, 0xbc30, 0xce58, 0xd558, 0xc138,
     0xc694]"

definition issue_readability :: jsstring where
  "issue_readability = [0xac00, 0xb3c5, 0xc131, 0xc774, 0x20, 0xb0ae, 0xc2b5, 0xb2c8, 0xb2e4]"

definition suggestion_readability :: jsstring where
  "suggestion_readability = [0xc801, 0xc808, 0xd55c, 0x20, 0xb744, 0xc5b4, 0xc4f0, 0xae30, 0xc640,
     0x20, 0xb2e8, 0xc5b4, 0x20, 0xbc30, 0xce58, 0xb97c, 0x20, 0xd655, 0xc778, 0xd558, 0xc138,
     0xc694]"

text \<open>"The title is too long", and "the title is too short".\<close>

definition issue_too_long :: jsstring where
  "issue_too_long = [0xc81c, 0xbaa9, 0xc774, 0x20, 0xb108, 0xbb34, 0x20, 0xae41, 0xb2c8, 0xb2e4]"

definition suggestion_too_long :: jsstring where
  "suggestion_too_long = [0xbd88, 0xd544, 0xc694, 0xd55c, 0x20, 0xb2e8, 0xc5b4, 0xb97c, 0x20,
     0xc81c, 0xac70, 0xd558, 0xc5ec, 0x20, 0xae38, 0xc774, 0xb97c, 0x20, 0xc904, 0xc774, 0xc138,
     0xc694]"

definition issue_too_short :: jsstring where
  "issue_too_short = [0xc81c, 0xbaa9, 0xc774, 0x20, 0xb108, 0xbb34, 0x20, 0xc9e7, 0xc2b5, 0xb2c8,
     0xb2e4]"

definition suggestion_too_short :: jsstring where
  "suggestion_too_short = [0xc81c, 0xd488, 0xc758, 0x20, 0xd2b9, 0xc9d5, 0xc774, 0xb098, 0x20,
     0xc6a9, 0xb3c4, 0xb97c, 0x20, 0xcd94, 0xac00, 0xd558, 0xc138, 0xc694]"

definition issue_uniqueness :: jsstring where
  "issue_uniqueness = [0xc77c, 0xbc18, 0xc801, 0xc778, 0x20, 0xd45c, 0xd604, 0xc774, 0x20, 0xb9ce,
     0xc774, 0x20, 0xc0ac, 0xc6a9, 0xb418, 0xc5c8, 0xc2b5, 0xb2c8, 0xb2e4]"

definition suggestion_uniqueness :: jsstring where
  "suggestion_uniqueness = [0xc81c, 0xd488, 0xb9cc, 0xc758, 0x20, 0xace0, 0xc720, 0xd55c, 0x20,
     0xd2b9, 0xc9d5, 0xc744, 0x20, 0xac15, 0xc870, 0xd558, 0xc138, 0xc694]"

definition analyzeIssues ::
  "TitleGenerationConfig \<Rightarrow> jsstring \<Rightarrow> QualityBreakdown \<Rightarrow> jsstring list \<times> jsstring list" where
  "analyzeIssues cfg title b =
     (let placementPart =
            (if keywordPlacement b < 7 / 10 then [(issue_placement, suggestion_placement)] else []);
          readabilityPart =
            (if readability b < 7 / 10 then [(issue_readability, suggestion_readability)] else []);
          lengthPart =
            (if b_length b < 8 / 10
             then (if length title > maxLength cfg
                   then [(issue_too_long, suggestion_too_long)]
                   else [(issue_too_short, suggestion_too_short)])
             else []);
          uniquenessPart =
            (if uniqueness b < 8 / 10 then [(issue_uniqueness, suggestion_uniqueness)] else []);
          found = placementPart @ readabilityPart @ lengthPart @ uniquenessPart
      in (map fst found, map snd found))"

definition evaluateTitle ::
  "TitleGenerationConfig \<Rightarrow> (jsstring \<Rightarrow> jsstring) \<Rightarrow> jsstring \<Rightarrow> TitleQualityScore" where
  "evaluateTitle cfg lc title =
     (let b = \<lparr>keywordPlacement = evaluateKeywordPlacement cfg lc title,
                readability = evaluateReadability title,
                b_length = evaluateLengthScore cfg title,
                uniqueness = evaluateUniqueness title\<rparr>;
          avg = (0 + keywordPlacement b + readability b + b_length b + uniqueness b) / 4;
          found = analyzeIssues cfg title b
      in \<lparr>q_overall = Math_round (avg * 100) / 100,
          q_breakdown = b,
          q_issues = fst found,
          q_suggestions = snd found\<rparr>)"

subsection \<open>Candidate generation\<close>

definition createTitleFromPattern ::
  "jsstring \<Rightarrow> ProductTitleComponents \<Rightarrow> jsstring list \<Rightarrow> ProductTitle" where
  "createTitleFromPattern titleText comps keywords =
     \<lparr>keyword_ids = [], components = comps, title_text = titleText, score = 0, issues = [],
      spacing_variants = None\<rparr>"

text \<open>
  \<open>generateKeywordCombinations\<close>: for \<open>i < j\<close> the pair and the swapped pair, then, with
  three or more keywords, the triples for \<open>i < j < k\<close>; each in the order of the loops.
\<close>

fun pairCombinations :: "jsstring list \<Rightarrow> jsstring list list" where
  "pairCombinations [] = []"
| "pairCombinations (x # xs) = concat (map (\<lambda>y. [[x, y], [y, x]]) xs) @ pairCombinations xs"

fun laterPairs :: "jsstring list \<Rightarrow> jsstring list list" where
  "laterPairs [] = []"
| "laterPairs (y # ys) = map (\<lambda>z. [y, z]) ys @ laterPairs ys"

fun tripleCombinations :: "jsstring list \<Rightarrow> jsstring list list" where
  "tripleCombinations [] = []"
| "tripleCombinations (x # xs) = map (\<lambda>p. x # p) (laterPairs xs) @ tripleCombinations xs"

definition generateKeywordCombinations :: "jsstring list \<Rightarrow> jsstring list list" where
  "generateKeywordCombinations keywords =
     pairCombinations keywords
     @ (if length keywords \<ge> 3 then tripleCombinations keywords else [])"

definition featuresText :: "ProductTitleComponents \<Rightarrow> jsstring" where
  "featuresText comps = join [0x20] (case c_features comps of None \<Rightarrow> [] | Some fs \<Rightarrow> fs)"

definition generateTitleCandidates ::
  "ProductTitleComponents \<Rightarrow> jsstring list \<Rightarrow> ProductTitle list" where
  "generateTitleCandidates comps keywords =
     (let kw = join [0x20] keywords;
          cat = str_or_empty (c_category comps);
          feats = featuresText comps;
          use = str_or_empty (c_usage comps);
          pattern1 =
            [createTitleFromPattern (trim (kw @ [0x20] @ cat @ [0x20] @ feats @ [0x20] @ use))
               comps keywords];
          pattern2 =
            (if str_truthy (c_category comps)
             then [createTitleFromPattern
                     (trim (the (c_category comps) @ [0x20] @ kw @ [0x20] @ feats @ [0x20] @ use))
                     comps keywords]
             else []);
          pattern3 =
            (case c_features comps of
               Some (f # fs) \<Rightarrow>
                 [createTitleFromPattern (trim (kw @ [0x20] @ f @ [0x20] @ cat @ [0x20] @ use))
                    comps keywords]
             | _ \<Rightarrow> []);
          pattern4 =
            (if str_truthy (c_demographic comps)
             then [createTitleFromPattern
                     (trim (the (c_demographic comps) @ [0x20] @ kw @ [0x20] @ cat @ [0x20] @ feats))
                     comps keywords]
             else []);
          pattern5 =
            (if str_truthy (c_usage comps)
             then [createTitleFromPattern
                     (trim (the (c_usage comps) @ [0x20] @ kw @ [0x20] @ cat @ [0x20] @ feats))
                     comps keywords]
             else []);
          pattern6to10 =
            (if length keywords \<ge> 2
             then map (\<lambda>combination.
                         createTitleFromPattern
                           (trim (join [0x20] combination @ [0x20] @ cat @ [0x20] @ feats
                                  @ [0x20] @ use))
                           comps combination)
                    (take 5 (generateKeywordCombinations keywords))
             else []);
          candidates = pattern1 @ pattern2 @ pattern3 @ pattern4 @ pattern5 @ pattern6to10
      in filter (\<lambda>candidate. length (title_text candidate) > 0) candidates)"

text \<open>
  \<open>selectAndSortKeywords\<close>: the map from lower-cased term to keyword (a later keyword
  replaces an earlier one of the same key), the requested terms with the score found
  there or 0, stably sorted by descending score, cut to \<open>maxKeywords\<close>.
\<close>

definition selectAndSortKeywords ::
  "TitleGenerationConfig \<Rightarrow> (jsstring \<Rightarrow> jsstring) \<Rightarrow> Keyword list \<Rightarrow> jsstring list \<Rightarrow> jsstring list" where
  "selectAndSortKeywords cfg lc allKeywords requestedKeywords =
     (let keywordMap = fold (\<lambda>k m. m(lc (k_term k) \<mapsto> k)) allKeywords Map.empty;
          selectedKeywords =
            map (\<lambda>t. (t, (case keywordMap (lc t) of None \<Rightarrow> 0 | Some k \<Rightarrow> score_or_0 k)))
              requestedKeywords;
          sortedKeywords = sort_key (\<lambda>p. - snd p) selectedKeywords;
          limitedKeywords = take (maxKeywords cfg) sortedKeywords
      in map fst limitedKeywords)"

subsection \<open>Post-processing\<close>

definition isStopword :: "TitleGenerationConfig \<Rightarrow> (jsstring \<Rightarrow> jsstring) \<Rightarrow> jsstring \<Rightarrow> bool" where
  "isStopword cfg lc word = list_ex (\<lambda>stopword. js_includes (lc word) (lc stopword)) (stopwords cfg)"

text \<open>\<open>removeStopwords\<close>: the text without its stopword tokens, and the tokens removed.\<close>

definition removeStopwords ::
  "TitleGenerationConfig \<Rightarrow> (jsstring \<Rightarrow> jsstring) \<Rightarrow> jsstring \<Rightarrow> jsstring \<times> jsstring list" where
  "removeStopwords cfg lc text =
     (let words = split_ws text;
          filteredWords = filter (\<lambda>word. \<not> isStopword cfg lc word) words;
          removedWords = filter (\<lambda>word. isStopword cfg lc word) words
      in (join [0x20] filteredWords, removedWords))"

text \<open>
  The filter of \<open>removeDuplicateWords\<close>, with the set of lower-cased words seen so far:
  the words kept and the words removed.
\<close>

fun uniqueWords :: "(jsstring \<Rightarrow> jsstring) \<Rightarrow> jsstring set \<Rightarrow> jsstring list \<Rightarrow> jsstring list \<times> jsstring list" where
  "uniqueWords lc seenWords [] = ([], [])"
| "uniqueWords lc seenWords (word # words) =
     (if lc word \<in> seenWords
      then (let r = uniqueWords lc seenWords words in (fst r, word # snd r))
      else (let r = uniqueWords lc (insert (lc word) seenWords) words in (word # fst r, snd r)))"

definition removeDuplicateWords :: "(jsstring \<Rightarrow> jsstring) \<Rightarrow> jsstring \<Rightarrow> jsstring \<times> jsstring list" where
  "removeDuplicateWords lc text =
     (let r = uniqueWords lc {} (split_ws text) in (join [0x20] (fst r), snd r))"

text \<open>The issue texts of \<open>postProcessTitle\<close>: stopwords removed, duplicates removed, too long.\<close>

definition issue_stopwords :: "jsstring list \<Rightarrow> jsstring" where
  "issue_stopwords removedWords =
     [0xae08, 0xce59, 0xc5b4, 0x20, 0xc81c, 0xac70, 0xb428, 0x3a, 0x20] @ join [0x2c, 0x20] removedWords"

definition issue_duplicates :: "jsstring list \<Rightarrow> jsstring" where
  "issue_duplicates removedDuplicates =
     [0xc911, 0xbcf5, 0x20, 0xb2e8, 0xc5b4, 0x20, 0xc81c, 0xac70, 0xb428, 0x3a, 0x20]
     @ join [0x2c, 0x20] removedDuplicates"

definition issue_length :: "nat \<Rightarrow> nat \<Rightarrow> jsstring" where
  "issue_length len maxLen =
     [0xae38, 0xc774, 0x20, 0xcd08, 0xacfc, 0x20, 0x28] @ decimal len @ [0x2f] @ decimal maxLen
     @ [0xc790, 0x29]"

definition postProcessTitle ::
  "TitleGenerationConfig \<Rightarrow> (jsstring \<Rightarrow> jsstring) \<Rightarrow> ProductTitle \<Rightarrow> ProductTitle" where
  "postProcessTitle cfg lc title =
     (let stop = removeStopwords cfg lc (title_text title);
          issues1 = (if length (snd stop) > 0 then [issue_stopwords (snd stop)] else []);
          dedup = (if removeDuplicates cfg then removeDuplicateWords lc (fst stop) else (fst stop, []));
          issues2 = (if removeDuplicates cfg \<and> length (snd dedup) > 0
                     then [issue_duplicates (snd dedup)] else []);
          processedText = fst dedup;
          issues3 = (if length processedText > maxLength cfg
                     then [issue_length (length processedText) (maxLength cfg)] else []);
          spacingVariants = (if cfg_generateSpacingVariants cfg
                             then Some (generateSpacingVariants processedText) else None)
      in title\<lparr>title_text := processedText,
               issues := issues title @ issues1 @ issues2 @ issues3,
               spacing_variants := spacingVariants\<rparr>)"

subsection \<open>Validation and generation\<close>

definition error_no_keyword :: jsstring where
  "error_no_keyword = [0xcd5c, 0xc18c, 0x20, 0x31, 0xac1c, 0xc758, 0x20, 0xd0a4, 0xc6cc, 0xb4dc,
     0xac00, 0x20, 0xd544, 0xc694, 0xd569, 0xb2c8, 0xb2e4]"

definition error_too_many :: "nat \<Rightarrow> jsstring" where
  "error_too_many maxKw =
     [0xd0a4, 0xc6cc, 0xb4dc, 0xb294, 0x20, 0xcd5c, 0xb300, 0x20] @ decimal maxKw
     @ [0xac1c, 0xae4c, 0xc9c0, 0x20, 0xc120, 0xd0dd, 0x20, 0xac00, 0xb2a5, 0xd569, 0xb2c8, 0xb2e4]"

definition error_missing :: "jsstring list \<Rightarrow> jsstring" where
  "error_missing missingKeywords =
     [0xc874, 0xc7ac, 0xd558, 0xc9c0, 0x20, 0xc54a, 0xb294, 0x20, 0xd0a4, 0xc6cc, 0xb4dc, 0x3a, 0x20]
     @ join [0x2c, 0x20] missingKeywords"

definition error_prefix :: jsstring where
  "error_prefix = [0xc785, 0xb825, 0x20, 0xac80, 0xc99d, 0x20, 0xc2e4, 0xd328, 0x3a, 0x20]"

definition validateInput ::
  "TitleGenerationConfig \<Rightarrow> (jsstring \<Rightarrow> jsstring) \<Rightarrow> ProductTitleComponents \<Rightarrow> Keyword list
     \<Rightarrow> ValidationResult" where
  "validateInput cfg lc comps keywords =
     (let e1 = (if length (c_keywords comps) = 0
                then [\<lparr>field = ascii ''keywords'', message = error_no_keyword\<rparr>] else []);
          e2 = (if length (c_keywords comps) > maxKeywords cfg
                then [\<lparr>field = ascii ''keywords'', message = error_too_many (maxKeywords cfg)\<rparr>]
                else []);
          availableKeywords = set (map (\<lambda>k. lc (k_term k)) keywords);
          missingKeywords = filter (\<lambda>t. lc t \<notin> availableKeywords) (c_keywords comps);
          e3 = (if length missingKeywords > 0
                then [\<lparr>field = ascii ''keywords'', message = error_missing missingKeywords\<rparr>]
                else []);
          errs = e1 @ e2 @ e3
      in \<lparr>isValid = (length errs = 0), errors = errs\<rparr>)"

text \<open>The object spread of step 5: the evaluation's \<open>issues\<close> replace the title's.\<close>

definition withEvaluation :: "ProductTitle \<Rightarrow> TitleQualityScore \<Rightarrow> ScoredTitle" where
  "withEvaluation title q =
     \<lparr>keyword_ids = keyword_ids title, components = components title,
      title_text = title_text title, score = score title, issues = q_issues q,
      spacing_variants = spacing_variants title,
      overall = q_overall q, breakdown = q_breakdown q, suggestions = q_suggestions q\<rparr>"

text \<open>
  \<open>generateTitles\<close>. A failed validation throws an \<open>Error\<close> with the joined messages;
  the sort is the stable sort of the language by descending \<open>score\<close>.
\<close>

definition generateTitles ::
  "TitleGenerationConfig \<Rightarrow> (jsstring \<Rightarrow> jsstring) \<Rightarrow> ProductTitleComponents \<Rightarrow> Keyword list
     \<Rightarrow> js_error + ScoredTitle list" where
  "generateTitles cfg lc comps keywords =
     (let validation = validateInput cfg lc comps keywords
      in if \<not> isValid validation
         then Inl (Error (error_prefix @ join [0x2c, 0x20] (map message (errors validation))))
         else (let selectedKeywords = selectAndSortKeywords cfg lc keywords (c_keywords comps);
                   titleCandidates = generateTitleCandidates comps selectedKeywords;
                   processedTitles = map (postProcessTitle cfg lc) titleCandidates;
                   scoredTitles =
                     map (\<lambda>title. withEvaluation title (evaluateTitle cfg lc (title_text title)))
                       processedTitles;
                   topTitles = take 10 (sort_key (\<lambda>t. - score t) scoredTitles)
               in Inr topTitles))"

subsection \<open>Inputs of the scenarios\<close>

text \<open>
  Scenario B: the two requested terms "smartphone" and "case" (in Hangul) with no other
  component, against a catalogue that holds only the first.
\<close>

definition scenarioB_components :: ProductTitleComponents where
  "scenarioB_components =
     \<lparr>c_category = None, c_demographic = None,
      c_keywords = [[0xc2a4, 0xb9c8, 0xd2b8, 0xd3f0], [0xcf00, 0xc774, 0xc2a4]],
      c_features = None, c_usage = None\<rparr>"

text \<open>
  The keyword "phone" (Hangul U+D3F0) and a request for it under the category
  "smartphone".
\<close>

definition kw_phone :: Keyword where
  "kw_phone =
     \<lparr>k_id = ascii ''k4'', k_created_at = [], k_updated_at = [], k_term = [0xd3f0],
      k_volume = 3000, k_competition = 50, k_weight = None, k_notes = None, k_tags = [],
      k_score = None\<rparr>"

definition phone_components :: ProductTitleComponents where
  "phone_components =
     \<lparr>c_category = Some [0xc2a4, 0xb9c8, 0xd2b8, 0xd3f0], c_demographic = None,
      c_keywords = [[0xd3f0]], c_features = None, c_usage = None\<rparr>"

text \<open>The default configuration after \<open>updateConfig({maxLength: 5})\<close>.\<close>

definition short_config :: TitleGenerationConfig where
  "short_config = DEFAULT_TITLE_CONFIG\<lparr>maxLength := 5\<rparr>"

text \<open>
  The two candidates of that request: keyword first ("phone smartphone") and category
  first ("smartphone phone").
\<close>

definition title_kw_first :: jsstring where
  "title_kw_first = [0xd3f0, 0x20, 0xc2a4, 0xb9c8, 0xd2b8, 0xd3f0]"

definition title_cat_first :: jsstring where
  "title_cat_first = [0xc2a4, 0xb9c8, 0xd2b8, 0xd3f0, 0x20, 0xd3f0]"

text \<open>
  A title of 36 code units in two words, the first containing the second: under the
  default configuration each of its four sub-scores is 1.
\<close>

definition title_all_ones :: jsstring where
  "title_all_ones = ascii ''abcdefghijklmnopqrstuvwxyzabcdefgh a''"

section \<open>Properties of KeywordScorer\<close>

text \<open>
  C10. \<open>calculateScores\<close> returns a list as long as its input and in the same
  order; each element is the input keyword with only its score replaced, so id, term,
  volume, competition, weight, tags and notes are those of the input.
\<close>

theorem calculateScores_frame:
  "length (fst (calculateScores s ks)) = length ks
   \<and> list_all2 (\<lambda>k r. r = k\<lparr>k_score := k_score r\<rparr>) ks (fst (calculateScores s ks))
   \<and> map k_id (fst (calculateScores s ks)) = map k_id ks
   \<and> map k_term (fst (calculateScores s ks)) = map k_term ks
   \<and> map k_volume (fst (calculateScores s ks)) = map k_volume ks
   \<and> map k_competition (fst (calculateScores s ks)) = map k_competition ks
   \<and> map k_weight (fst (calculateScores s ks)) = map k_weight ks
   \<and> map k_tags (fst (calculateScores s ks)) = map k_tags ks
   \<and> map k_notes (fst (calculateScores s ks)) = map k_notes ks"
  by (simp add: calculateScores_def split_def Let_def list_all2_map2 list_all2_same comp_def)

lemma stats_fields:
  "map k_volume ks' = map k_volume ks \<Longrightarrow> map k_competition ks' = map k_competition ks \<Longrightarrow>
   fst (calculateGroupStats s' ks') = fst (calculateGroupStats s ks)"
  by (cases ks; cases ks') (auto simp: Let_def dest: map_eq_imp_length_eq)

lemma weights_after: "weights (snd (calculateGroupStats s ks)) = weights s"
  by (cases ks) (simp_all add: Let_def)

lemma score_indep:
  "weights s' = weights s \<Longrightarrow> k_volume k' = k_volume k \<Longrightarrow> k_competition k' = k_competition k
   \<Longrightarrow> k_tags k' = k_tags k \<Longrightarrow> k_weight k' = k_weight k
   \<Longrightarrow> calculateScore s' k' (Some g) = calculateScore s k (Some g)"
  by (simp only: calculateScore_def option.case)

lemma calculateScore_ignores_score:
  "calculateScore s (k\<lparr>k_score := v\<rparr>) (Some g) = calculateScore s k (Some g)"
  by (rule score_indep) simp_all

lemma scores_as_map:
  "fst (calculateScores s ks) =
     map (\<lambda>k. k\<lparr>k_score := Some (res_score (calculateScore (snd (calculateGroupStats s ks)) k
                                   (Some (fst (calculateGroupStats s ks)))))\<rparr>) ks"
  by (simp add: calculateScores_def split_def Let_def)

lemma scores_state: "snd (calculateScores s ks) = snd (calculateGroupStats s ks)"
  by (simp add: calculateScores_def split_def Let_def)

text \<open>
  C8. \<open>calculateScores\<close> is idempotent: a second call of the same object on the
  same list returns the same keywords and scores, and so does a call on the first call's
  output; the group statistics of the output are those of the input.
\<close>

theorem calculateScores_idempotent:
  "fst (calculateScores (snd (calculateScores s ks)) ks) = fst (calculateScores s ks)
   \<and> fst (calculateScores (snd (calculateScores s ks)) (fst (calculateScores s ks)))
       = fst (calculateScores s ks)
   \<and> fst (calculateGroupStats (snd (calculateScores s ks)) (fst (calculateScores s ks)))
       = fst (calculateGroupStats s ks)"
proof -
  let ?r = "calculateScores s ks"
  let ?st = "fst (calculateGroupStats s ks)"
  let ?f = "\<lambda>k. k\<lparr>k_score := Some (res_score (calculateScore (snd (calculateGroupStats s ks)) k (Some ?st)))\<rparr>"
  have r: "fst ?r = map ?f ks" by (rule scores_as_map)
  have w: "weights (snd ?r) = weights s"
    by (simp add: scores_state weights_after)
  have vol: "map k_volume (fst ?r) = map k_volume ks"
    and comp: "map k_competition (fst ?r) = map k_competition ks"
    by (simp_all add: r comp_def)
  have st1: "fst (calculateGroupStats (snd ?r) ks) = ?st"
    by (rule stats_fields) simp_all
  have st2: "fst (calculateGroupStats (snd ?r) (fst ?r)) = ?st"
    by (rule stats_fields[OF vol comp])
  have sc: "calculateScore (snd (calculateGroupStats (snd ?r) xs)) k' (Some ?st)
          = calculateScore (snd (calculateGroupStats s ks)) k (Some ?st)"
    if "k_volume k' = k_volume k" "k_competition k' = k_competition k" "k_tags k' = k_tags k"
       "k_weight k' = k_weight k" for k k' xs
    by (rule score_indep) (simp_all add: weights_after w that)
  have a: "fst (calculateScores (snd ?r) ks) = fst ?r"
    unfolding scores_as_map[of "snd ?r" ks] st1 r
    by (rule map_cong) (simp_all add: sc)
  have b: "fst (calculateScores (snd ?r) (fst ?r)) = fst ?r"
    unfolding scores_as_map[of "snd ?r" "fst ?r"] st2
    by (subst (3) r, subst (2) r) (simp add: sc calculateScore_ignores_score)
  show ?thesis using a b st2 by simp
qed

section \<open>Properties of CategoryRecommender\<close>

lemma evaluateRule_fields:
  assumes "evaluateRule lc re rule texts keywords = Inr d"
  obtains pMatches where
    "matchPatterns re (join [0x20] texts) (r_patterns rule) = Inr pMatches"
    "keywordMatches d = matchKeywords lc rule (join [0x20] texts)"
    "patternMatches d = pMatches"
    "keywordScore (scoreBreakdown d) =
       (if length (r_keywords rule) > 0
        then real (length (matchKeywords lc rule (join [0x20] texts))) / real (length (r_keywords rule))
        else 0)"
    "patternScore (scoreBreakdown d) =
       (if length (r_patterns rule) > 0
        then real (length pMatches) / real (length (r_patterns rule)) else 0)"
    "frequencyScore (scoreBreakdown d) =
       frequencyOf lc (matchKeywords lc rule (join [0x20] texts)) keywords"
    "finalScore (scoreBreakdown d) =
       (keywordScore (scoreBreakdown d) * (4 / 10) + patternScore (scoreBreakdown d) * (3 / 10)
          + frequencyScore (scoreBreakdown d) * (3 / 10)) * r_weight rule * (r_confidence rule / 100)"
    "s_confidence (suggestion d) = Math_round (finalScore (scoreBreakdown d) * 100)"
  using assms unfolding evaluateRule_def Let_def
  by (cases "matchPatterns re (join [0x20] texts) (r_patterns rule)") (auto split del: if_split)

lemma sum_filter_filter:
  "sum_list (map f (filter P (filter Q xs))) = (\<Sum>x\<leftarrow>xs. if P x \<and> Q x then f x else (0::real))"
  by (induction xs) simp_all

lemma frequencyOf_amended: "frequencyOf lc ms ks = amended_frequencyScore lc ms ks"
  unfolding frequencyOf_def amended_frequencyScore_def Let_def sum_filter_filter list_ex_iff
  by (rule refl)

text \<open>
  C2, amended. For every rule and keyword list on which \<open>evaluateRule\<close> returns, the
  frequency score is the sum of score/100 over exactly the keywords whose score exceeds
  70 and whose lower-cased term contains some matched rule keyword (lower-cased) as a
  substring, divided by max(1, number of keywords) and capped at 1; the matched rule
  keywords are the rule's keywords whose lower-cased form occurs in the joined text.
\<close>

theorem frequencyScore_amended:
  assumes "evaluateRule lc re rule texts keywords = Inr d"
  shows "frequencyScore (scoreBreakdown d) = amended_frequencyScore lc (keywordMatches d) keywords
       \<and> keywordMatches d
           = filter (\<lambda>m. js_includes (join [0x20] texts) (lc m)) (r_keywords rule)"
  using assms
  by (elim evaluateRule_fields) (simp only: frequencyOf_amended matchKeywords_def simp_thms)


lemma matchPatterns_length:
  "matchPatterns re t ps = Inr ms \<Longrightarrow> length ms \<le> length ps"
proof (induction ps arbitrary: ms)
  case Nil
  then show ?case by simp
next
  case (Cons p ps)
  then show ?case
    by (auto split: option.splits sum.splits if_splits)
qed

lemma frequencyOf_range: "0 \<le> frequencyOf lc ms ks \<and> frequencyOf lc ms ks \<le> 1"
proof -
  let ?xs = "filter (\<lambda>keyword. list_ex (\<lambda>m. js_includes (lc (k_term keyword)) (lc m)) ms)
               (filter (\<lambda>k. score_or_0 k > 70) ks)"
  have "\<forall>k \<in> set ?xs. 0 \<le> score_or_0 k / 100" by auto
  then have "0 \<le> sum_list (map (\<lambda>keyword. score_or_0 keyword / 100) ?xs)"
    by (intro sum_list_nonneg) auto
  then have "0 \<le> sum_list (map (\<lambda>keyword. score_or_0 keyword / 100) ?xs) / max 1 (real (length ks))"
    by simp
  then show ?thesis unfolding frequencyOf_def Let_def by simp
qed

lemma ratio_range: "m \<le> n \<Longrightarrow> 0 \<le> (if n > 0 then real m / real n else 0) \<and> (if n > 0 then real m / real n else 0) \<le> 1"
  by simp

lemma final_range:
  fixes a b c w q :: real
  assumes "0 \<le> a" "a \<le> 1" "0 \<le> b" "b \<le> 1" "0 \<le> c" "c \<le> 1" "0 \<le> w" "w \<le> 1" "0 \<le> q" "q \<le> 100"
  shows "0 \<le> (a * (4 / 10) + b * (3 / 10) + c * (3 / 10)) * w * (q / 100)"
    and "(a * (4 / 10) + b * (3 / 10) + c * (3 / 10)) * w * (q / 100) \<le> 1"
proof -
  let ?m = "a * (4 / 10) + b * (3 / 10) + c * (3 / 10)"
  have m: "0 \<le> ?m" "?m \<le> 1" using assms by simp_all
  have q: "0 \<le> q / 100" "q / 100 \<le> 1" using assms by simp_all
  have mw: "0 \<le> ?m * w" "?m * w \<le> 1"
    using m assms(7,8) by (simp_all only: mult_nonneg_nonneg mult_le_one)
  show "0 \<le> ?m * w * (q / 100)" by (rule mult_nonneg_nonneg[OF mw(1) q(1)])
  show "?m * w * (q / 100) \<le> 1" by (rule mult_le_one[OF mw(2) q(1) q(2)])
qed

lemma Math_round_percent: "0 \<le> x \<Longrightarrow> x \<le> 1 \<Longrightarrow> 0 \<le> Math_round (x * 100) \<and> Math_round (x * 100) \<le> 100"
proof -
  assume a: "0 \<le> x" "x \<le> 1"
  have "0 \<le> \<lfloor>x * 100 + 1 / 2\<rfloor>" using a by (simp add: zero_le_floor)
  moreover have "\<lfloor>x * 100 + 1 / 2\<rfloor> \<le> 100"
  proof -
    have "x * 100 + 1 / 2 < 101" using a by simp
    then have "\<lfloor>x * 100 + 1 / 2\<rfloor> < 101" by (simp add: floor_less_iff)
    then show ?thesis by simp
  qed
  ultimately show ?thesis by (simp add: Math_round_def)
qed

lemma evaluateRule_confidence:
  assumes "evaluateRule lc re rule texts keywords = Inr d"
    and "0 \<le> r_weight rule" "r_weight rule \<le> 1" "0 \<le> r_confidence rule" "r_confidence rule \<le> 100"
  shows "0 \<le> s_confidence (suggestion d) \<and> s_confidence (suggestion d) \<le> 100"
proof -
  from assms(1) obtain pMatches where
    mp: "matchPatterns re (join [0x20] texts) (r_patterns rule) = Inr pMatches"
    and ks: "keywordScore (scoreBreakdown d) =
       (if length (r_keywords rule) > 0
        then real (length (matchKeywords lc rule (join [0x20] texts))) / real (length (r_keywords rule))
        else 0)"
    and ps: "patternScore (scoreBreakdown d) =
       (if length (r_patterns rule) > 0
        then real (length pMatches) / real (length (r_patterns rule)) else 0)"
    and fs: "frequencyScore (scoreBreakdown d) =
       frequencyOf lc (matchKeywords lc rule (join [0x20] texts)) keywords"
    and fin: "finalScore (scoreBreakdown d) =
       (keywordScore (scoreBreakdown d) * (4 / 10) + patternScore (scoreBreakdown d) * (3 / 10)
          + frequencyScore (scoreBreakdown d) * (3 / 10)) * r_weight rule * (r_confidence rule / 100)"
    and conf: "s_confidence (suggestion d) = Math_round (finalScore (scoreBreakdown d) * 100)"
    by (rule evaluateRule_fields)
  have "length (matchKeywords lc rule (join [0x20] texts)) \<le> length (r_keywords rule)"
    by (simp add: matchKeywords_def)
  then have k: "0 \<le> keywordScore (scoreBreakdown d) \<and> keywordScore (scoreBreakdown d) \<le> 1"
    unfolding ks by (rule ratio_range)
  have "length pMatches \<le> length (r_patterns rule)" using mp by (rule matchPatterns_length)
  then have p: "0 \<le> patternScore (scoreBreakdown d) \<and> patternScore (scoreBreakdown d) \<le> 1"
    unfolding ps by (rule ratio_range)
  have f: "0 \<le> frequencyScore (scoreBreakdown d) \<and> frequencyScore (scoreBreakdown d) \<le> 1"
    unfolding fs by (rule frequencyOf_range)
  have "0 \<le> finalScore (scoreBreakdown d)" "finalScore (scoreBreakdown d) \<le> 1"
    unfolding fin using k p f assms(2-5) by (blast intro: final_range)+
  then show ?thesis unfolding conf by (rule Math_round_percent)
qed

lemma calculateCategoryScores_members:
  "calculateCategoryScores lc re rules texts keywords = Inr cs \<Longrightarrow> d \<in> set cs \<Longrightarrow>
     0 < finalScore (scoreBreakdown d)
     \<and> (\<exists>rule \<in> set rules. evaluateRule lc re rule texts keywords = Inr d)"
proof (induction rules arbitrary: cs)
  case Nil
  then show ?case by simp
next
  case (Cons rule rules)
  from Cons.prems(1) obtain detail results where
    e: "evaluateRule lc re rule texts keywords = Inr detail"
    and r: "calculateCategoryScores lc re rules texts keywords = Inr results"
    and c: "cs = (if finalScore (scoreBreakdown detail) > 0 then detail # results else results)"
    by (auto split: sum.splits)
  show ?case
  proof (cases "d \<in> set results")
    case True
    with Cons.IH[OF r] show ?thesis by auto
  next
    case False
    with c Cons.prems(2) have "d = detail" "0 < finalScore (scoreBreakdown detail)"
      by (auto split: if_splits)
    with e show ?thesis by simp
  qed
qed

lemma calculateCategoryScores_filter:
  "calculateCategoryScores lc re rules texts keywords = Inr cs \<Longrightarrow>
     cs = filter (\<lambda>d. 0 < finalScore (scoreBreakdown d))
            (map (\<lambda>rule. projr (evaluateRule lc re rule texts keywords)) rules)"
proof (induction rules arbitrary: cs)
  case Nil
  then show ?case by simp
next
  case (Cons rule rules)
  from Cons.prems(1) obtain detail results where
    e: "evaluateRule lc re rule texts keywords = Inr detail"
    and r: "calculateCategoryScores lc re rules texts keywords = Inr results"
    and c: "cs = (if finalScore (scoreBreakdown detail) > 0 then detail # results else results)"
    by (auto split: sum.splits)
  from Cons.IH[OF r] c e show ?case by simp
qed

lemma sorted_desc_sort_key:
  "sorted_wrt (\<lambda>a b. f b \<le> (f a :: real)) (sort_key (\<lambda>d. - f d) xs)"
proof -
  have "sorted (map (\<lambda>d. - f d) (sort_key (\<lambda>d. - f d) xs))" by (rule sorted_sort_key)
  then show ?thesis by (simp add: sorted_map)
qed

lemma sorted_wrt_take_desc:
  "sorted_wrt P xs \<Longrightarrow> sorted_wrt P (take n xs)"
  by (induction xs arbitrary: n) (auto simp: take_Cons' dest: in_set_takeD)


text \<open>
  \<open>recommendCategories\<close> returns whenever every pattern of the rule table compiles.
\<close>

lemma matchPatterns_returns:
  "(\<forall>p\<in>set ps. re p t \<noteq> None) \<Longrightarrow> \<exists>ms. matchPatterns re t ps = Inr ms"
  by (induction ps) (auto split: option.splits sum.splits)

lemma evaluateRule_returns:
  "(\<forall>p\<in>set (r_patterns rule). re p (join [0x20] texts) \<noteq> None) \<Longrightarrow>
   \<exists>d. evaluateRule lc re rule texts keywords = Inr d"
proof -
  assume "\<forall>p\<in>set (r_patterns rule). re p (join [0x20] texts) \<noteq> None"
  then obtain ms where "matchPatterns re (join [0x20] texts) (r_patterns rule) = Inr ms"
    using matchPatterns_returns by blast
  then show ?thesis unfolding evaluateRule_def Let_def by simp
qed

lemma calculateCategoryScores_returns:
  "(\<forall>rule\<in>set rules. \<forall>p\<in>set (r_patterns rule). re p (join [0x20] texts) \<noteq> None) \<Longrightarrow>
   \<exists>cs. calculateCategoryScores lc re rules texts keywords = Inr cs"
proof (induction rules)
  case Nil
  then show ?case by simp
next
  case (Cons rule rules)
  then obtain cs where cs: "calculateCategoryScores lc re rules texts keywords = Inr cs" by auto
  from Cons.prems obtain d where "evaluateRule lc re rule texts keywords = Inr d"
    using evaluateRule_returns by (metis list.set_intros(1))
  with cs show ?case by simp
qed

lemma recommendCategories_returns:
  "(\<forall>rule\<in>set rules. \<forall>p\<in>set (r_patterns rule).
      re p (join [0x20] (map (\<lambda>k. lc (k_term k)) keywords @ extractAdditionalTexts lc comps)) \<noteq> None)
   \<Longrightarrow> \<exists>ds. recommendCategories lc re rules keywords comps maxSuggestions = Inr ds"
proof -
  assume "\<forall>rule\<in>set rules. \<forall>p\<in>set (r_patterns rule).
      re p (join [0x20] (map (\<lambda>k. lc (k_term k)) keywords @ extractAdditionalTexts lc comps)) \<noteq> None"
  then obtain cs where "calculateCategoryScores lc re rules
      (map (\<lambda>k. lc (k_term k)) keywords @ extractAdditionalTexts lc comps) keywords = Inr cs"
    using calculateCategoryScores_returns by blast
  then show ?thesis unfolding recommendCategories_def Let_def by simp
qed

text \<open>
  C7. For a rule table whose rules all have weight in 0..1 and base confidence in
  0..100, every suggestion that \<open>recommendCategories\<close> returns has confidence in
  0..100 and a final score above 0; the results are in descending order of final score;
  they are the first \<open>maxSuggestions\<close> entries of the stably sorted list of the rules'
  details with a final score above 0, so at most \<open>maxSuggestions\<close> of them.
\<close>

theorem recommendCategories_bounds:
  assumes rules: "list_all (\<lambda>r. 0 \<le> r_weight r \<and> r_weight r \<le> 1
                              \<and> 0 \<le> r_confidence r \<and> r_confidence r \<le> 100) rules"
    and ret: "recommendCategories lc re rules keywords comps maxSuggestions = Inr ds"
  shows "list_all (\<lambda>d. 0 \<le> s_confidence (suggestion d) \<and> s_confidence (suggestion d) \<le> 100
                       \<and> 0 < finalScore (scoreBreakdown d)) ds
       \<and> sorted_wrt (\<lambda>a b. finalScore (scoreBreakdown b) \<le> finalScore (scoreBreakdown a)) ds
       \<and> ds = take maxSuggestions
                (sort_key (\<lambda>d. - finalScore (scoreBreakdown d))
                   (filter (\<lambda>d. 0 < finalScore (scoreBreakdown d))
                      (map (\<lambda>rule. projr (evaluateRule lc re rule
                              (map (\<lambda>k. lc (k_term k)) keywords @ extractAdditionalTexts lc comps)
                              keywords)) rules)))
       \<and> length ds \<le> maxSuggestions"
proof -
  let ?texts = "map (\<lambda>k. lc (k_term k)) keywords @ extractAdditionalTexts lc comps"
  let ?key = "\<lambda>d. - finalScore (scoreBreakdown d)"
  from ret obtain cs where
    cs: "calculateCategoryScores lc re rules ?texts keywords = Inr cs"
    and ds: "ds = take maxSuggestions (sort_key ?key cs)"
    unfolding recommendCategories_def Let_def by (auto split: sum.splits)
  have sub: "set ds \<subseteq> set cs" unfolding ds using set_take_subset[of maxSuggestions "sort_key ?key cs"] by simp
  have "0 \<le> s_confidence (suggestion d) \<and> s_confidence (suggestion d) \<le> 100
        \<and> 0 < finalScore (scoreBreakdown d)" if "d \<in> set ds" for d
  proof -
    from that sub have "d \<in> set cs" by blast
    with calculateCategoryScores_members[OF cs] obtain rule where
      pos: "0 < finalScore (scoreBreakdown d)" and r: "rule \<in> set rules"
      and e: "evaluateRule lc re rule ?texts keywords = Inr d" by blast
    from rules r have "0 \<le> r_weight rule" "r_weight rule \<le> 1" "0 \<le> r_confidence rule"
      "r_confidence rule \<le> 100" by (auto simp: list_all_iff)
    with evaluateRule_confidence[OF e] pos show ?thesis by blast
  qed
  then have a: "list_all (\<lambda>d. 0 \<le> s_confidence (suggestion d) \<and> s_confidence (suggestion d) \<le> 100
                       \<and> 0 < finalScore (scoreBreakdown d)) ds"
    by (simp add: list_all_iff)
  have b: "sorted_wrt (\<lambda>a b. finalScore (scoreBreakdown b) \<le> finalScore (scoreBreakdown a)) ds"
    unfolding ds by (intro sorted_wrt_take_desc sorted_desc_sort_key)
  have c: "ds = take maxSuggestions (sort_key ?key
                 (filter (\<lambda>d. 0 < finalScore (scoreBreakdown d))
                    (map (\<lambda>rule. projr (evaluateRule lc re rule ?texts keywords)) rules)))"
    using ds calculateCategoryScores_filter[OF cs] by simp
  have d: "length ds \<le> maxSuggestions" unfolding ds by simp
  from a b c d show ?thesis by blast
qed

subsection \<open>The smartphone rule on a concrete keyword\<close>

lemma phone_text:
  "join [0x20] [ascii_lower (k_term kw_phone_case)]
     = [0xc2a4, 0xb9c8, 0xd2b8, 0xd3f0, 0x20, 0xcf00, 0xc774, 0xc2a4]"
  by (simp add: kw_phone_case_def ascii_lower_def)

lemma phone_kmatch:
  "matchKeywords ascii_lower rule_phone [0xc2a4, 0xb9c8, 0xd2b8, 0xd3f0, 0x20, 0xcf00, 0xc774, 0xc2a4]
     = [[0xc2a4, 0xb9c8, 0xd2b8, 0xd3f0], [0xd3f0]]"
  by (simp add: matchKeywords_def rule_phone_def ascii_lower_def)

lemma phone_pmatch:
  "matchPatterns literal_re [0xc2a4, 0xb9c8, 0xd2b8, 0xd3f0, 0x20, 0xcf00, 0xc774, 0xc2a4]
     (r_patterns rule_phone) = Inr [[0xc2a4, 0xb9c8, 0xd2b8, 0xd3f0]]"
  by (simp add: rule_phone_def literal_re_def)

lemma phone_freq:
  "frequencyOf ascii_lower [[0xc2a4, 0xb9c8, 0xd2b8, 0xd3f0], [0xd3f0]] [kw_phone_case] = 4 / 5"
  by (simp add: frequencyOf_def kw_phone_case_def ascii_lower_def score_or_0_def)

lemma phone_eval:
  "evaluateRule ascii_lower literal_re rule_phone [ascii_lower (k_term kw_phone_case)] [kw_phone_case]
     = Inr phone_detail"
  unfolding evaluateRule_def Let_def phone_text phone_kmatch phone_pmatch phone_freq phone_detail_def
  by (simp add: rule_phone_def Math_round_def)

lemma food_kmatch:
  "matchKeywords ascii_lower rule_food [0xc2a4, 0xb9c8, 0xd2b8, 0xd3f0, 0x20, 0xcf00, 0xc774, 0xc2a4] = []"
  by (simp add: matchKeywords_def rule_food_def ascii_lower_def)

lemma food_pmatch:
  "matchPatterns literal_re [0xc2a4, 0xb9c8, 0xd2b8, 0xd3f0, 0x20, 0xcf00, 0xc774, 0xc2a4]
     (r_patterns rule_food) = Inr []"
  by (simp add: rule_food_def literal_re_def)

lemma food_final:
  "map_sum id (\<lambda>d. finalScore (scoreBreakdown d))
     (evaluateRule ascii_lower literal_re rule_food [ascii_lower (k_term kw_phone_case)] [kw_phone_case])
     = Inr 0"
  unfolding evaluateRule_def Let_def phone_text food_kmatch food_pmatch
  by (simp add: rule_food_def frequencyOf_def)

lemma phone_scores:
  "calculateCategoryScores ascii_lower literal_re [rule_food, rule_phone]
     [ascii_lower (k_term kw_phone_case)] [kw_phone_case] = Inr [phone_detail]"
proof -
  from food_final obtain d where
    "evaluateRule ascii_lower literal_re rule_food [ascii_lower (k_term kw_phone_case)] [kw_phone_case] = Inr d"
    "finalScore (scoreBreakdown d) = 0"
    by (cases "evaluateRule ascii_lower literal_re rule_food [ascii_lower (k_term kw_phone_case)] [kw_phone_case]")
       simp_all
  then show ?thesis by (simp add: phone_eval phone_detail_def)
qed

lemma phone_recommend:
  "recommendCategories ascii_lower literal_re [rule_food, rule_phone] [kw_phone_case] None 3
     = Inr [phone_detail]"
proof -
  have t: "map (\<lambda>k. ascii_lower (k_term k)) [kw_phone_case] @ extractAdditionalTexts ascii_lower None
             = [ascii_lower (k_term kw_phone_case)]"
    by (simp add: extractAdditionalTexts_def)
  show ?thesis unfolding recommendCategories_def Let_def t phone_scores by simp
qed

text \<open>
  Counterexample for C2 as stated: the keyword's term, "smartphone case", is a substring
  of neither matched rule keyword ("smartphone", "phone"), so the specification's sum is
  0; the code, which asks whether the term contains a matched rule keyword, returns 4/5.
\<close>

theorem frequencyScore_counterexample:
  "evaluateRule ascii_lower literal_re rule_phone [ascii_lower (k_term kw_phone_case)] [kw_phone_case]
     = Inr phone_detail
   \<and> frequencyScore (scoreBreakdown phone_detail) = 4 / 5
   \<and> spec_frequencyScore (keywordMatches phone_detail) [kw_phone_case] = 0"
  by (simp add: phone_eval) (simp add: phone_detail_def spec_frequencyScore_def kw_phone_case_def)

text \<open>
  Witness for C2, amended: the smartphone rule on the keyword "smartphone case" of score
  80 returns, and both sides are 4/5.
\<close>

theorem frequencyScore_amended_witness:
  "evaluateRule ascii_lower literal_re rule_phone [ascii_lower (k_term kw_phone_case)] [kw_phone_case]
     = Inr phone_detail
   \<and> frequencyScore (scoreBreakdown phone_detail)
       = amended_frequencyScore ascii_lower (keywordMatches phone_detail) [kw_phone_case]
   \<and> amended_frequencyScore ascii_lower (keywordMatches phone_detail) [kw_phone_case] = 4 / 5"
proof -
  have f: "frequencyScore (scoreBreakdown phone_detail) = 4 / 5" by (simp add: phone_detail_def)
  from frequencyScore_amended[OF phone_eval] have
    e: "frequencyScore (scoreBreakdown phone_detail)
          = amended_frequencyScore ascii_lower (keywordMatches phone_detail) [kw_phone_case]"
    by (rule conjunct1)
  show ?thesis by (intro conjI phone_eval e trans[OF e[symmetric] f])
qed

text \<open>
  Witness for C7: the food rule and the smartphone rule on that keyword, with at most 3
  suggestions asked for: the food rule scores 0 and is dropped, the smartphone rule is
  returned with confidence 40.
\<close>

theorem recommendCategories_bounds_witness:
  "list_all (\<lambda>r. 0 \<le> r_weight r \<and> r_weight r \<le> 1 \<and> 0 \<le> r_confidence r \<and> r_confidence r \<le> 100)
     [rule_food, rule_phone]
   \<and> recommendCategories ascii_lower literal_re [rule_food, rule_phone] [kw_phone_case] None 3
       = Inr [phone_detail]
   \<and> list_all (\<lambda>d. 0 \<le> s_confidence (suggestion d) \<and> s_confidence (suggestion d) \<le> 100
                    \<and> 0 < finalScore (scoreBreakdown d)) [phone_detail]
   \<and> s_confidence (suggestion phone_detail) = 40"
proof -
  have h: "list_all (\<lambda>r. 0 \<le> r_weight r \<and> r_weight r \<le> 1 \<and> 0 \<le> r_confidence r \<and> r_confidence r \<le> 100)
     [rule_food, rule_phone]"
    by (simp add: rule_food_def rule_phone_def)
  have c: "s_confidence (suggestion phone_detail) = 40" by (simp add: phone_detail_def)
  from recommendCategories_bounds[OF h phone_recommend] have
    "list_all (\<lambda>d. 0 \<le> s_confidence (suggestion d) \<and> s_confidence (suggestion d) \<le> 100
                    \<and> 0 < finalScore (scoreBreakdown d)) [phone_detail]"
    by (rule conjunct1)
  then show ?thesis by (intro conjI h phone_recommend c)
qed

section \<open>Properties of the spacing variants\<close>

lemma js_includes_iff: "js_includes s p \<longleftrightarrow> (\<exists>a b. s = a @ p @ b)"
proof (induction s)
  case Nil
  then show ?case by auto
next
  case (Cons c cs)
  show ?case
  proof
    assume "js_includes (c # cs) p"
    then consider "take (length p) (c # cs) = p" | "js_includes cs p" by auto
    then show "\<exists>a b. c # cs = a @ p @ b"
    proof cases
      case 1
      then have "c # cs = [] @ p @ drop (length p) (c # cs)"
        by (metis append_Nil append_take_drop_id)
      then show ?thesis by blast
    next
      case 2
      with Cons.IH obtain a b where "cs = a @ p @ b" by blast
      then have "c # cs = (c # a) @ p @ b" by simp
      then show ?thesis by blast
    qed
  next
    assume "\<exists>a b. c # cs = a @ p @ b"
    then obtain a b where ab: "c # cs = a @ p @ b" by blast
    show "js_includes (c # cs) p"
    proof (cases a)
      case Nil
      with ab have "take (length p) (c # cs) = p" by simp
      then show ?thesis by simp
    next
      case (Cons x xs)
      with ab have "cs = xs @ p @ b" by simp
      with Cons.IH have "js_includes cs p" by blast
      then show ?thesis by simp
    qed
  qed
qed

lemma no_adjacent_Cons:
  "no_adjacent_spaces (c # cs) \<longleftrightarrow> (cs = [] \<or> \<not> (is_space c \<and> is_space (hd cs))) \<and> no_adjacent_spaces cs"
  by (cases cs) auto

lemma collapse_ws_hd: "collapse_ws (c # cs) \<noteq> [] \<and> (is_space (hd (collapse_ws (c # cs))) \<longrightarrow> is_space c)"
  by (induction "c # cs" arbitrary: c cs rule: collapse_ws.induct) (auto simp: is_space_def)

lemma collapse_ws_nonspace: "\<not> is_space d \<Longrightarrow> collapse_ws (d # cs) = d # collapse_ws cs"
  by (cases cs) auto

lemma no_adjacent_collapse: "no_adjacent_spaces (collapse_ws s)"
proof (induction s rule: collapse_ws.induct)
  case 1
  then show ?case by simp
next
  case (2 c)
  then show ?case by simp
next
  case (3 c d cs)
  show ?case
  proof (cases "is_space c")
    case True
    show ?thesis
    proof (cases "is_space d")
      case True
      with \<open>is_space c\<close> 3 show ?thesis by simp
    next
      case False
      with \<open>is_space c\<close> 3 have "no_adjacent_spaces (collapse_ws (d # cs))" by simp
      with False \<open>is_space c\<close> show ?thesis
        by (simp add: collapse_ws_nonspace)
    qed
  next
    case False
    with 3 have "no_adjacent_spaces (collapse_ws (d # cs))" by simp
    with False show ?thesis by (simp add: no_adjacent_Cons)
  qed
qed

lemma insert_between_hd: "hd (insert_between P Q (c # cs)) = c"
  by (cases cs) auto

lemma no_adjacent_insert:
  "(\<forall>c. P c \<longrightarrow> \<not> is_space c) \<Longrightarrow> (\<forall>c. Q c \<longrightarrow> \<not> is_space c) \<Longrightarrow>
   no_adjacent_spaces s \<Longrightarrow> no_adjacent_spaces (insert_between P Q s)"
proof (induction P Q s rule: insert_between.induct)
  case (1 P Q c d cs)
  from "1.prems"(3) have cd: "\<not> (is_space c \<and> is_space d)" and dcs: "no_adjacent_spaces (d # cs)"
    by simp_all
  show ?case
  proof (cases "P c \<and> Q d")
    case True
    then have nc: "\<not> is_space c" and nd: "\<not> is_space d" using "1.prems"(1,2) by blast+
    from dcs have ncs: "no_adjacent_spaces cs" by (simp add: no_adjacent_Cons)
    have "no_adjacent_spaces (insert_between P Q cs)"
      by (rule "1.IH"(1)[OF True "1.prems"(1,2) ncs])
    with nd have "no_adjacent_spaces (d # insert_between P Q cs)" by (simp add: no_adjacent_Cons)
    with True nc nd show ?thesis by simp
  next
    case False
    have ih: "no_adjacent_spaces (insert_between P Q (d # cs))"
      by (rule "1.IH"(2)[OF False "1.prems"(1,2) dcs])
    have eq: "insert_between P Q (c # d # cs) = c # insert_between P Q (d # cs)"
      using False by auto
    have "no_adjacent_spaces (c # insert_between P Q (d # cs))"
      unfolding no_adjacent_Cons[of c] insert_between_hd using cd ih by blast
    then show ?thesis unfolding eq .
  qed
qed simp_all

lemma no_adjacent_append:
  "no_adjacent_spaces (xs @ ys) \<Longrightarrow> no_adjacent_spaces xs \<and> no_adjacent_spaces ys"
proof (induction xs)
  case Nil
  then show ?case by simp
next
  case (Cons x xs)
  then have "no_adjacent_spaces (xs @ ys)" by (simp add: no_adjacent_Cons)
  with Cons.IH have ih: "no_adjacent_spaces xs" "no_adjacent_spaces ys" by simp_all
  show ?case
  proof (cases xs)
    case Nil
    with ih show ?thesis by simp
  next
    case (Cons y zs)
    with Cons.prems ih show ?thesis by simp
  qed
qed

lemma trim_middle: "\<exists>a b. s = a @ trim s @ b"
proof -
  have "s = takeWhile is_space s @ dropWhile is_space s" by simp
  moreover have "dropWhile is_space s
      = rev (dropWhile is_space (rev (dropWhile is_space s)))
        @ rev (takeWhile is_space (rev (dropWhile is_space s)))"
    by (metis rev_append rev_rev_ident takeWhile_dropWhile_id)
  ultimately have "s = takeWhile is_space s @ trim s @ rev (takeWhile is_space (rev (dropWhile is_space s)))"
    unfolding trim_def by simp
  then show ?thesis by blast
qed

lemma no_adjacent_trim: "no_adjacent_spaces s \<Longrightarrow> no_adjacent_spaces (trim s)"
proof -
  assume a: "no_adjacent_spaces s"
  obtain x y where "s = x @ trim s @ y" using trim_middle by blast
  with a have "no_adjacent_spaces (x @ trim s @ y)" by simp
  then show ?thesis using no_adjacent_append by blast
qed

lemma no_adjacent_normalizeSpacing: "no_adjacent_spaces (normalizeSpacing s)"
  unfolding normalizeSpacing_def
  by (intro no_adjacent_trim no_adjacent_insert no_adjacent_collapse allI impI)
     (auto simp: is_space_def is_hangul_def is_latin_def is_digit_def)

lemma no_adjacent_no_double: "no_adjacent_spaces s \<Longrightarrow> \<not> js_includes s [0x20, 0x20]"
proof
  assume a: "no_adjacent_spaces s" and "js_includes s [0x20, 0x20]"
  then obtain x y where "s = x @ [0x20, 0x20] @ y" unfolding js_includes_iff by blast
  with a have "no_adjacent_spaces ([0x20, 0x20] @ y)" using no_adjacent_append by blast
  then show False by (simp add: is_space_def)
qed

text \<open>
  C9. For every string, the unspaced variant holds no white-space code unit, and the
  spaced variant holds no two consecutive spaces, indeed no two consecutive white-space
  code units at all.
\<close>

theorem spacing_variants_clean:
  "list_all (\<lambda>c. \<not> is_space c) (unspaced (generateSpacingVariants x))
   \<and> \<not> js_includes (spaced (generateSpacingVariants x)) [0x20, 0x20]
   \<and> no_adjacent_spaces (spaced (generateSpacingVariants x))"
proof -
  have "list_all (\<lambda>c. \<not> is_space c) (unspaced (generateSpacingVariants x))"
    by (simp add: generateSpacingVariants_def removeSpacing_def list_all_iff Let_def)
  moreover have "no_adjacent_spaces (spaced (generateSpacingVariants x))"
    by (simp add: generateSpacingVariants_def no_adjacent_normalizeSpacing Let_def)
  ultimately show ?thesis using no_adjacent_no_double by blast
qed

section \<open>Properties of TitleGenerator\<close>

lemma js_includes_refl: "js_includes s s"
  unfolding js_includes_iff by (metis append_Nil append_Nil2)

lemma js_includes_trans: "js_includes s m \<Longrightarrow> js_includes m t \<Longrightarrow> js_includes s t"
proof -
  assume "js_includes s m" and "js_includes m t"
  then obtain a b c d where "s = a @ m @ b" and "m = c @ t @ d"
    unfolding js_includes_iff by blast
  then have "s = (a @ c) @ t @ (d @ b)" by simp
  then show ?thesis unfolding js_includes_iff by blast
qed

lemma js_includes_append: "js_includes s t \<Longrightarrow> js_includes (p @ s @ q) t"
proof -
  assume "js_includes s t"
  then obtain a b where "s = a @ t @ b" unfolding js_includes_iff by blast
  then have "p @ s @ q = (p @ a) @ t @ (b @ q)" by simp
  then show ?thesis unfolding js_includes_iff by blast
qed

lemma js_includes_prefix: "js_includes s t \<Longrightarrow> js_includes (p @ s) t"
  using js_includes_append[of s t p "[]"] by simp

lemma js_includes_join: "m \<in> set ms \<Longrightarrow> js_includes (join sep ms) m"
proof (induction sep ms rule: join.induct)
  case (1 sep)
  then show ?case by simp
next
  case (2 sep x)
  then show ?case by (simp add: js_includes_refl)
next
  case (3 sep x y ys)
  show ?case
  proof (cases "m = x")
    case True
    have "js_includes ([] @ x @ (sep @ join sep (y # ys))) x"
      by (rule js_includes_append[OF js_includes_refl])
    with True show ?thesis by simp
  next
    case False
    with 3 have "js_includes (join sep (y # ys)) m" by simp
    then have "js_includes ((x @ sep) @ join sep (y # ys) @ []) m"
      by (rule js_includes_append)
    then show ?thesis by simp
  qed
qed

lemma validateInput_messages:
  "map message (errors (validateInput cfg lc comps catalog)) =
     (if c_keywords comps = [] then [error_no_keyword] else [])
     @ (if maxKeywords cfg < length (c_keywords comps) then [error_too_many (maxKeywords cfg)] else [])
     @ (if filter (\<lambda>t. lc t \<notin> set (map (\<lambda>k. lc (k_term k)) catalog)) (c_keywords comps) \<noteq> []
        then [error_missing (filter (\<lambda>t. lc t \<notin> set (map (\<lambda>k. lc (k_term k)) catalog)) (c_keywords comps))]
        else [])"
  by (simp add: validateInput_def Let_def)

lemma validateInput_isValid:
  "isValid (validateInput cfg lc comps catalog) \<longleftrightarrow>
     c_keywords comps \<noteq> [] \<and> \<not> maxKeywords cfg < length (c_keywords comps)
     \<and> filter (\<lambda>t. lc t \<notin> set (map (\<lambda>k. lc (k_term k)) catalog)) (c_keywords comps) = []"
  by (simp add: validateInput_def Let_def)

lemma generateTitles_invalid:
  "\<not> isValid (validateInput cfg lc comps catalog) \<Longrightarrow>
   generateTitles cfg lc comps catalog
     = Inl (Error (error_prefix @ join [0x2c, 0x20] (map message (errors (validateInput cfg lc comps catalog)))))"
  by (simp add: generateTitles_def Let_def)

lemma generateTitles_valid:
  "isValid (validateInput cfg lc comps catalog) \<Longrightarrow>
   generateTitles cfg lc comps catalog
     = Inr (take 10 (sort_key (\<lambda>t. - score t)
         (map (\<lambda>title. withEvaluation title (evaluateTitle cfg lc (title_text title)))
            (map (postProcessTitle cfg lc)
               (generateTitleCandidates comps
                  (selectAndSortKeywords cfg lc catalog (c_keywords comps)))))))"
  by (simp add: generateTitles_def Let_def)

text \<open>
  C4. When the requested keywords are empty, or more than the configured maximum, or
  some requested term has no catalogue term equal to it after lower-casing,
  \<open>generateTitles\<close> throws an error and returns no title; the message contains every
  missing term, and the message of every check that failed (no keyword, too many
  keywords, missing keywords). Otherwise it throws nothing and returns titles.
\<close>

theorem generateTitles_validation:
  "(if c_keywords comps = [] \<or> maxKeywords cfg < length (c_keywords comps)
       \<or> (\<exists>t\<in>set (c_keywords comps). lc t \<notin> set (map (\<lambda>k. lc (k_term k)) catalog))
    then \<exists>msg. generateTitles cfg lc comps catalog = Inl (Error msg)
           \<and> list_all (js_includes msg)
               (filter (\<lambda>t. lc t \<notin> set (map (\<lambda>k. lc (k_term k)) catalog)) (c_keywords comps))
           \<and> (c_keywords comps = [] \<longrightarrow> js_includes msg error_no_keyword)
           \<and> (maxKeywords cfg < length (c_keywords comps)
                \<longrightarrow> js_includes msg (error_too_many (maxKeywords cfg)))
           \<and> ((\<exists>t\<in>set (c_keywords comps). lc t \<notin> set (map (\<lambda>k. lc (k_term k)) catalog))
                \<longrightarrow> js_includes msg
                      (error_missing
                         (filter (\<lambda>t. lc t \<notin> set (map (\<lambda>k. lc (k_term k)) catalog))
                            (c_keywords comps))))
    else \<exists>ts. generateTitles cfg lc comps catalog = Inr ts)"
proof -
  let ?missing = "filter (\<lambda>t. lc t \<notin> set (map (\<lambda>k. lc (k_term k)) catalog)) (c_keywords comps)"
  let ?A = "c_keywords comps = []"
  let ?B = "maxKeywords cfg < length (c_keywords comps)"
  let ?C = "\<exists>t\<in>set (c_keywords comps). lc t \<notin> set (map (\<lambda>k. lc (k_term k)) catalog)"
  let ?msgs = "map message (errors (validateInput cfg lc comps catalog))"
  let ?msg = "error_prefix @ join [0x2c, 0x20] ?msgs"
  have C: "?C \<longleftrightarrow> ?missing \<noteq> []" by (auto simp: filter_empty_conv)
  show ?thesis
  proof (cases "?A \<or> ?B \<or> ?C")
    case False
    then have "isValid (validateInput cfg lc comps catalog)"
      unfolding validateInput_isValid C by blast
    then have "\<exists>ts. generateTitles cfg lc comps catalog = Inr ts"
      by (simp add: generateTitles_valid)
    with False show ?thesis by (simp only: if_False)
  next
    case True
    then have "\<not> isValid (validateInput cfg lc comps catalog)"
      unfolding validateInput_isValid C by blast
    then have g: "generateTitles cfg lc comps catalog = Inl (Error ?msg)"
      by (rule generateTitles_invalid)
    have inc: "js_includes ?msg m" if "m \<in> set ?msgs" for m
    proof -
      from that have "js_includes (join [0x2c, 0x20] ?msgs) m" by (rule js_includes_join)
      then show ?thesis by (rule js_includes_prefix)
    qed
    have ma: "error_no_keyword \<in> set ?msgs" if "?A"
      using that by (simp add: validateInput_messages)
    have mb: "error_too_many (maxKeywords cfg) \<in> set ?msgs" if "?B"
      using that by (simp add: validateInput_messages)
    have mc: "error_missing ?missing \<in> set ?msgs" if "?missing \<noteq> []"
      using that by (simp add: validateInput_messages)
    have a: "?A \<longrightarrow> js_includes ?msg error_no_keyword"
      using inc ma by blast
    have b: "?B \<longrightarrow> js_includes ?msg (error_too_many (maxKeywords cfg))"
      using inc mb by blast
    have c: "?C \<longrightarrow> js_includes ?msg (error_missing ?missing)"
      unfolding C using inc mc by blast
    have "js_includes ?msg t" if "t \<in> set ?missing" for t
    proof -
      from that have "?missing \<noteq> []" by (metis empty_iff empty_set)
      then have "?C" using C by blast
      with c have "js_includes ?msg (error_missing ?missing)" by blast
      moreover have "js_includes (error_missing ?missing) t"
        unfolding error_missing_def
        by (rule js_includes_prefix[OF js_includes_join[OF that]])
      ultimately show ?thesis by (rule js_includes_trans)
    qed
    then have d: "list_all (js_includes ?msg) ?missing" by (simp add: list_all_iff)
    from g a b c d have "\<exists>msg. generateTitles cfg lc comps catalog = Inl (Error msg)
           \<and> list_all (js_includes msg) ?missing
           \<and> (?A \<longrightarrow> js_includes msg error_no_keyword)
           \<and> (?B \<longrightarrow> js_includes msg (error_too_many (maxKeywords cfg)))
           \<and> (?C \<longrightarrow> js_includes msg (error_missing ?missing))"
      by blast
    with True show ?thesis by (simp only: if_True)
  qed
qed


subsection \<open>The order of the returned titles\<close>

lemma sort_key_const: "(\<forall>x\<in>set xs. f x = c) \<Longrightarrow> sort_key f xs = xs"
proof (induction xs)
  case Nil
  then show ?case by simp
next
  case (Cons x xs)
  then have "sort_key f xs = xs" by simp
  moreover have "insort_key f x xs = x # xs"
    using Cons.prems by (cases xs) simp_all
  ultimately show ?case by simp
qed

lemma candidates_score: "t \<in> set (generateTitleCandidates comps kws) \<Longrightarrow> score t = 0"
  unfolding generateTitleCandidates_def Let_def
  by (auto simp: createTitleFromPattern_def split: if_splits option.splits list.splits)

lemma postProcessTitle_score: "score (postProcessTitle cfg lc t) = score t"
  by (simp add: postProcessTitle_def Let_def)

lemma withEvaluation_fields:
  "score (withEvaluation t q) = score t"
  "title_text (withEvaluation t q) = title_text t"
  "issues (withEvaluation t q) = q_issues q"
  "overall (withEvaluation t q) = q_overall q"
  by (simp_all add: withEvaluation_def)

lemma generateTitles_order:
  assumes "isValid (validateInput cfg lc comps catalog)"
  shows "generateTitles cfg lc comps catalog
     = Inr (take 10
         (map (\<lambda>title. withEvaluation title (evaluateTitle cfg lc (title_text title)))
            (map (postProcessTitle cfg lc)
               (generateTitleCandidates comps
                  (selectAndSortKeywords cfg lc catalog (c_keywords comps))))))"
proof -
  let ?scored = "map (\<lambda>title. withEvaluation title (evaluateTitle cfg lc (title_text title)))
            (map (postProcessTitle cfg lc)
               (generateTitleCandidates comps
                  (selectAndSortKeywords cfg lc catalog (c_keywords comps))))"
  have "\<forall>t\<in>set ?scored. - score t = 0"
    by (auto simp: withEvaluation_fields postProcessTitle_score candidates_score)
  then have "sort_key (\<lambda>t. - score t) ?scored = ?scored" by (rule sort_key_const)
  then show ?thesis using generateTitles_valid[OF assms] by simp
qed

subsection \<open>Titles over the maximum length\<close>

lemma evaluateTitle_too_long:
  assumes "maxLength cfg < length title"
  shows "issue_too_long \<in> set (q_issues (evaluateTitle cfg lc title))"
proof -
  have l: "evaluateLengthScore cfg title = 0"
    using assms by (simp add: evaluateLengthScore_def Let_def)
  have "issue_too_long \<in> set (fst (analyzeIssues cfg title b))" if "b_length b = 0" for b
    using that assms by (simp add: analyzeIssues_def Let_def)
  then show ?thesis unfolding evaluateTitle_def Let_def using l by simp
qed

text \<open>
  C6. Every title returned by \<open>generateTitles\<close> whose text is longer than the
  configured maximum carries the issue "the title is too long" in its issues.
\<close>

theorem generateTitles_length_issue:
  assumes "generateTitles cfg lc comps catalog = Inr ts"
    and "t \<in> set ts"
    and "maxLength cfg < length (title_text t)"
  shows "issue_too_long \<in> set (issues t)"
proof -
  have v: "isValid (validateInput cfg lc comps catalog)"
  proof (rule ccontr)
    assume "\<not> isValid (validateInput cfg lc comps catalog)"
    from generateTitles_invalid[OF this] assms(1) show False by simp
  qed
  from generateTitles_order[OF v] assms(1) have
    "ts = take 10
         (map (\<lambda>title. withEvaluation title (evaluateTitle cfg lc (title_text title)))
            (map (postProcessTitle cfg lc)
               (generateTitleCandidates comps
                  (selectAndSortKeywords cfg lc catalog (c_keywords comps)))))"
    by simp
  with assms(2) obtain p where t: "t = withEvaluation p (evaluateTitle cfg lc (title_text p))"
    by (auto dest!: in_set_takeD)
  then have tt: "title_text t = title_text p" by (simp add: withEvaluation_fields)
  have "issues t = q_issues (evaluateTitle cfg lc (title_text p))"
    unfolding t by (rule withEvaluation_fields)
  moreover have "issue_too_long \<in> set (q_issues (evaluateTitle cfg lc (title_text p)))"
    using assms(3) unfolding tt by (rule evaluateTitle_too_long)
  ultimately show ?thesis by simp
qed


subsection \<open>The request for "phone" under the category "smartphone"\<close>

lemma phone_valid:
  "maxKeywords cfg = 3 \<Longrightarrow> isValid (validateInput cfg ascii_lower phone_components [kw_phone])"
  by (simp add: validateInput_isValid phone_components_def kw_phone_def ascii_lower_def)

lemma phone_selected:
  "maxKeywords cfg = 3 \<Longrightarrow>
   selectAndSortKeywords cfg ascii_lower [kw_phone] (c_keywords phone_components) = [[0xd3f0]]"
  by (simp add: selectAndSortKeywords_def phone_components_def kw_phone_def ascii_lower_def Let_def)

lemma phone_trim1: "trim ([0xd3f0] @ [0x20] @ [0xc2a4, 0xb9c8, 0xd2b8, 0xd3f0] @ [0x20] @ [] @ [0x20] @ [])
    = title_kw_first"
  by (simp add: trim_def is_space_def title_kw_first_def)

lemma phone_trim2: "trim ([0xc2a4, 0xb9c8, 0xd2b8, 0xd3f0] @ [0x20] @ [0xd3f0] @ [0x20] @ [] @ [0x20] @ [])
    = title_cat_first"
  by (simp add: trim_def is_space_def title_cat_first_def)

lemma phone_candidates:
  "generateTitleCandidates phone_components [[0xd3f0]]
     = [createTitleFromPattern title_kw_first phone_components [[0xd3f0]],
        createTitleFromPattern title_cat_first phone_components [[0xd3f0]]]"
proof -
  have c: "str_or_empty (c_category phone_components) = [0xc2a4, 0xb9c8, 0xd2b8, 0xd3f0]"
    "str_truthy (c_category phone_components)"
    "the (c_category phone_components) = [0xc2a4, 0xb9c8, 0xd2b8, 0xd3f0]"
    "featuresText phone_components = []" "str_or_empty (c_usage phone_components) = []"
    "\<not> str_truthy (c_demographic phone_components)" "\<not> str_truthy (c_usage phone_components)"
    "c_features phone_components = None"
    by (simp_all add: phone_components_def str_or_empty_def str_truthy_def featuresText_def)
  have j: "join [0x20] [[0xd3f0]] = [0xd3f0]" by simp
  have n: "title_kw_first \<noteq> []" "title_cat_first \<noteq> []"
    by (simp_all add: title_kw_first_def title_cat_first_def)
  show ?thesis
    unfolding generateTitleCandidates_def Let_def c j phone_trim1 phone_trim2
    using n by (simp add: createTitleFromPattern_def c)
qed

lemma split_kw_first: "split_ws title_kw_first = [[0xd3f0], [0xc2a4, 0xb9c8, 0xd2b8, 0xd3f0]]"
  by (simp add: split_ws_def title_kw_first_def is_space_def)

lemma split_cat_first: "split_ws title_cat_first = [[0xc2a4, 0xb9c8, 0xd2b8, 0xd3f0], [0xd3f0]]"
  by (simp add: split_ws_def title_cat_first_def is_space_def)

lemma phone_not_stopword:
  "stopwords cfg = stopwords DEFAULT_TITLE_CONFIG \<Longrightarrow>
   \<not> isStopword cfg ascii_lower [0xd3f0] \<and> \<not> isStopword cfg ascii_lower [0xc2a4, 0xb9c8, 0xd2b8, 0xd3f0]"
  by (simp add: isStopword_def DEFAULT_TITLE_CONFIG_def ascii_lower_def ascii_def)

lemma phone_stop1:
  "stopwords cfg = stopwords DEFAULT_TITLE_CONFIG \<Longrightarrow>
   removeStopwords cfg ascii_lower title_kw_first = (title_kw_first, [])"
  unfolding removeStopwords_def Let_def split_kw_first
  by (simp add: phone_not_stopword) (simp add: title_kw_first_def)

lemma phone_stop2:
  "stopwords cfg = stopwords DEFAULT_TITLE_CONFIG \<Longrightarrow>
   removeStopwords cfg ascii_lower title_cat_first = (title_cat_first, [])"
  unfolding removeStopwords_def Let_def split_cat_first
  by (simp add: phone_not_stopword) (simp add: title_cat_first_def)

lemma phone_dedup1: "removeDuplicateWords ascii_lower title_kw_first = (title_kw_first, [])"
  unfolding removeDuplicateWords_def Let_def split_kw_first
  by (simp add: ascii_lower_def title_kw_first_def)

lemma phone_dedup2: "removeDuplicateWords ascii_lower title_cat_first = (title_cat_first, [])"
  unfolding removeDuplicateWords_def Let_def split_cat_first
  by (simp add: ascii_lower_def title_cat_first_def)

lemma phone_post1:
  "stopwords cfg = stopwords DEFAULT_TITLE_CONFIG \<Longrightarrow> removeDuplicates cfg \<Longrightarrow>
   title_text (postProcessTitle cfg ascii_lower (createTitleFromPattern title_kw_first comps kws))
     = title_kw_first"
  unfolding postProcessTitle_def Let_def
  by (simp add: createTitleFromPattern_def phone_stop1 phone_dedup1)

lemma phone_post2:
  "stopwords cfg = stopwords DEFAULT_TITLE_CONFIG \<Longrightarrow> removeDuplicates cfg \<Longrightarrow>
   title_text (postProcessTitle cfg ascii_lower (createTitleFromPattern title_cat_first comps kws))
     = title_cat_first"
  unfolding postProcessTitle_def Let_def
  by (simp add: createTitleFromPattern_def phone_stop2 phone_dedup2)


lemma placement_kw_first:
  "evaluateKeywordPlacement DEFAULT_TITLE_CONFIG ascii_lower title_kw_first = 3 / 4"
  unfolding evaluateKeywordPlacement_def Let_def getKeywordsFromTitle_def split_kw_first
  by (simp add: DEFAULT_TITLE_CONFIG_def ascii_lower_def)

lemma placement_cat_first:
  "evaluateKeywordPlacement DEFAULT_TITLE_CONFIG ascii_lower title_cat_first = 1"
  unfolding evaluateKeywordPlacement_def Let_def getKeywordsFromTitle_def split_cat_first
  by (simp add: DEFAULT_TITLE_CONFIG_def ascii_lower_def)

lemma readability_kw_first: "evaluateReadability title_kw_first = 7 / 10"
  unfolding evaluateReadability_def Let_def split_kw_first
  by (simp add: title_kw_first_def is_word_def is_latin_def is_digit_def is_space_def
      is_hangul_def is_upper_def)

lemma readability_cat_first: "evaluateReadability title_cat_first = 7 / 10"
  unfolding evaluateReadability_def Let_def split_cat_first
  by (simp add: title_cat_first_def is_word_def is_latin_def is_digit_def is_space_def
      is_hangul_def is_upper_def)

lemma length_kw_first: "evaluateLengthScore DEFAULT_TITLE_CONFIG title_kw_first = 1 / 6"
  by (simp add: evaluateLengthScore_def Let_def DEFAULT_TITLE_CONFIG_def title_kw_first_def)

lemma length_cat_first: "evaluateLengthScore DEFAULT_TITLE_CONFIG title_cat_first = 1 / 6"
  by (simp add: evaluateLengthScore_def Let_def DEFAULT_TITLE_CONFIG_def title_cat_first_def)

lemma uniqueness_kw_first: "evaluateUniqueness title_kw_first = 1"
  by (simp add: evaluateUniqueness_def Let_def commonPhrases_def title_kw_first_def is_digit_def)

lemma uniqueness_cat_first: "evaluateUniqueness title_cat_first = 1"
  by (simp add: evaluateUniqueness_def Let_def commonPhrases_def title_cat_first_def is_digit_def)

lemma overall_kw_first:
  "q_overall (evaluateTitle DEFAULT_TITLE_CONFIG ascii_lower title_kw_first) = 65 / 100"
  unfolding evaluateTitle_def Let_def placement_kw_first readability_kw_first length_kw_first
    uniqueness_kw_first
  by (simp add: Math_round_def)

lemma overall_cat_first:
  "q_overall (evaluateTitle DEFAULT_TITLE_CONFIG ascii_lower title_cat_first) = 72 / 100"
  unfolding evaluateTitle_def Let_def placement_cat_first readability_cat_first length_cat_first
    uniqueness_cat_first
  by (simp add: Math_round_def)

lemma phone_titles:
  assumes "maxKeywords cfg = 3" and "stopwords cfg = stopwords DEFAULT_TITLE_CONFIG"
    and "removeDuplicates cfg"
  shows "\<not> isl (generateTitles cfg ascii_lower phone_components [kw_phone])"
    and "map title_text (projr (generateTitles cfg ascii_lower phone_components [kw_phone]))
           = [title_kw_first, title_cat_first]"
    and "map score (projr (generateTitles cfg ascii_lower phone_components [kw_phone])) = [0, 0]"
    and "map overall (projr (generateTitles cfg ascii_lower phone_components [kw_phone]))
           = [q_overall (evaluateTitle cfg ascii_lower title_kw_first),
              q_overall (evaluateTitle cfg ascii_lower title_cat_first)]"
    and "map issues (projr (generateTitles cfg ascii_lower phone_components [kw_phone]))
           = [q_issues (evaluateTitle cfg ascii_lower title_kw_first),
              q_issues (evaluateTitle cfg ascii_lower title_cat_first)]"
proof -
  have g: "generateTitles cfg ascii_lower phone_components [kw_phone]
     = Inr (take 10
         (map (\<lambda>title. withEvaluation title (evaluateTitle cfg ascii_lower (title_text title)))
            (map (postProcessTitle cfg ascii_lower)
               [createTitleFromPattern title_kw_first phone_components [[0xd3f0]],
                createTitleFromPattern title_cat_first phone_components [[0xd3f0]]])))"
    using generateTitles_order[OF phone_valid[OF assms(1)]]
    unfolding phone_selected[OF assms(1)] phone_candidates .
  show "\<not> isl (generateTitles cfg ascii_lower phone_components [kw_phone])"
    unfolding g by simp
  show "map title_text (projr (generateTitles cfg ascii_lower phone_components [kw_phone]))
           = [title_kw_first, title_cat_first]"
    unfolding g
    by (simp add: withEvaluation_fields phone_post1[OF assms(2,3)] phone_post2[OF assms(2,3)])
  show "map score (projr (generateTitles cfg ascii_lower phone_components [kw_phone])) = [0, 0]"
    unfolding g
    by (simp add: withEvaluation_fields postProcessTitle_score createTitleFromPattern_def)
  show "map overall (projr (generateTitles cfg ascii_lower phone_components [kw_phone]))
           = [q_overall (evaluateTitle cfg ascii_lower title_kw_first),
              q_overall (evaluateTitle cfg ascii_lower title_cat_first)]"
    unfolding g
    by (simp add: withEvaluation_fields phone_post1[OF assms(2,3)] phone_post2[OF assms(2,3)])
  show "map issues (projr (generateTitles cfg ascii_lower phone_components [kw_phone]))
           = [q_issues (evaluateTitle cfg ascii_lower title_kw_first),
              q_issues (evaluateTitle cfg ascii_lower title_cat_first)]"
    unfolding g
    by (simp add: withEvaluation_fields phone_post1[OF assms(2,3)] phone_post2[OF assms(2,3)])
qed

text \<open>
  C1, evaluated on the code. For the request for "phone" under the category "smartphone", with the
  default configuration, \<open>generateTitles\<close> returns the two candidates in the order of
  their generation: the \<open>score\<close> it sorts by is 0 on both, never filled in from the
  evaluation, and their overall quality scores are 0.65 and then 0.72, not descending.
\<close>

theorem generateTitles_not_sorted:
  "\<not> isl (generateTitles DEFAULT_TITLE_CONFIG ascii_lower phone_components [kw_phone])
   \<and> map title_text (projr (generateTitles DEFAULT_TITLE_CONFIG ascii_lower phone_components [kw_phone]))
       = [title_kw_first, title_cat_first]
   \<and> map score (projr (generateTitles DEFAULT_TITLE_CONFIG ascii_lower phone_components [kw_phone]))
       = [0, 0]
   \<and> map overall (projr (generateTitles DEFAULT_TITLE_CONFIG ascii_lower phone_components [kw_phone]))
       = [65 / 100, 72 / 100]"
proof -
  have d: "maxKeywords DEFAULT_TITLE_CONFIG = 3" "removeDuplicates DEFAULT_TITLE_CONFIG"
    by (simp_all add: DEFAULT_TITLE_CONFIG_def)
  show ?thesis
    using phone_titles(1-4)[OF d(1) refl d(2)]
    unfolding overall_kw_first overall_cat_first by blast
qed


text \<open>
  Witness for C6: with the maximum length set to 5, the first title returned for the
  request for "phone" under "smartphone" has 6 code units and carries the issue.
\<close>

theorem generateTitles_length_issue_witness:
  "generateTitles short_config ascii_lower phone_components [kw_phone]
     = Inr (projr (generateTitles short_config ascii_lower phone_components [kw_phone]))
   \<and> hd (projr (generateTitles short_config ascii_lower phone_components [kw_phone]))
       \<in> set (projr (generateTitles short_config ascii_lower phone_components [kw_phone]))
   \<and> maxLength short_config
       < length (title_text (hd (projr (generateTitles short_config ascii_lower phone_components [kw_phone]))))
   \<and> title_text (hd (projr (generateTitles short_config ascii_lower phone_components [kw_phone])))
       = title_kw_first
   \<and> issue_too_long
       \<in> set (issues (hd (projr (generateTitles short_config ascii_lower phone_components [kw_phone]))))"
proof -
  let ?g = "generateTitles short_config ascii_lower phone_components [kw_phone]"
  have d: "maxKeywords short_config = 3" "stopwords short_config = stopwords DEFAULT_TITLE_CONFIG"
    "removeDuplicates short_config"
    by (simp_all add: short_config_def DEFAULT_TITLE_CONFIG_def)
  have h1: "?g = Inr (projr ?g)" using phone_titles(1)[OF d] by simp
  have m: "map title_text (projr ?g) = [title_kw_first, title_cat_first]"
    by (rule phone_titles(2)[OF d])
  then have ne: "projr ?g \<noteq> []" by auto
  then have h2: "hd (projr ?g) \<in> set (projr ?g)" by simp
  have tt: "title_text (hd (projr ?g)) = title_kw_first"
    using m ne by (simp add: hd_map[symmetric])
  have h3: "maxLength short_config < length (title_text (hd (projr ?g)))"
    unfolding tt by (simp add: short_config_def title_kw_first_def)
  from generateTitles_length_issue[OF h1 h2 h3] h1 h2 h3 tt show ?thesis by blast
qed

subsection \<open>Scenario B\<close>

lemma scenarioB_missing:
  "filter (\<lambda>t. ascii_lower t \<notin> set (map (\<lambda>k. ascii_lower (k_term k)) [scenarioA_phone]))
     (c_keywords scenarioB_components) = [[0xcf00, 0xc774, 0xc2a4]]"
  by (simp add: scenarioB_components_def scenarioA_phone_def ascii_lower_def)

lemma scenarioB_error:
  "generateTitles DEFAULT_TITLE_CONFIG ascii_lower scenarioB_components [scenarioA_phone]
     = Inl (Error (error_prefix @ error_missing [[0xcf00, 0xc774, 0xc2a4]]))"
proof -
  have k: "c_keywords scenarioB_components \<noteq> []"
    "\<not> maxKeywords DEFAULT_TITLE_CONFIG < length (c_keywords scenarioB_components)"
    by (simp_all add: scenarioB_components_def DEFAULT_TITLE_CONFIG_def)
  have "\<not> isValid (validateInput DEFAULT_TITLE_CONFIG ascii_lower scenarioB_components [scenarioA_phone])"
    unfolding validateInput_isValid scenarioB_missing by simp
  from generateTitles_invalid[OF this] show ?thesis
    unfolding validateInput_messages scenarioB_missing using k by simp
qed

lemma scenarioB_message:
  "error_prefix @ error_missing [[0xcf00, 0xc774, 0xc2a4]]
     = [0xc785, 0xb825, 0x20, 0xac80, 0xc99d, 0x20, 0xc2e4, 0xd328, 0x3a, 0x20,
        0xc874, 0xc7ac, 0xd558, 0xc9c0, 0x20, 0xc54a, 0xb294, 0x20, 0xd0a4, 0xc6cc, 0xb4dc, 0x3a, 0x20,
        0xcf00, 0xc774, 0xc2a4]"
  by (simp add: error_prefix_def error_missing_def)

text \<open>
  Witness for C4, scenario B: against a catalogue holding only "smartphone" the request
  for "smartphone" and "case" throws the error whose text names the missing "case" and
  not "smartphone"; the valid request for "phone" throws nothing.
\<close>

theorem generateTitles_validation_witness:
  "generateTitles DEFAULT_TITLE_CONFIG ascii_lower scenarioB_components [scenarioA_phone]
     = Inl (Error (error_prefix @ error_missing [[0xcf00, 0xc774, 0xc2a4]]))
   \<and> js_includes (error_prefix @ error_missing [[0xcf00, 0xc774, 0xc2a4]]) [0xcf00, 0xc774, 0xc2a4]
   \<and> \<not> js_includes (error_prefix @ error_missing [[0xcf00, 0xc774, 0xc2a4]])
           [0xc2a4, 0xb9c8, 0xd2b8, 0xd3f0]
   \<and> \<not> isl (generateTitles DEFAULT_TITLE_CONFIG ascii_lower phone_components [kw_phone])"
proof -
  let ?cat = "[scenarioA_phone]"
  have cond: "c_keywords scenarioB_components = []
      \<or> maxKeywords DEFAULT_TITLE_CONFIG < length (c_keywords scenarioB_components)
      \<or> (\<exists>t\<in>set (c_keywords scenarioB_components).
            ascii_lower t \<notin> set (map (\<lambda>k. ascii_lower (k_term k)) ?cat))"
    using scenarioB_missing by (metis filter_empty_conv list.distinct(1))
  from generateTitles_validation[of scenarioB_components DEFAULT_TITLE_CONFIG ascii_lower ?cat]
  obtain msg where
    m1: "generateTitles DEFAULT_TITLE_CONFIG ascii_lower scenarioB_components ?cat = Inl (Error msg)"
    and m2: "list_all (js_includes msg)
               (filter (\<lambda>t. ascii_lower t \<notin> set (map (\<lambda>k. ascii_lower (k_term k)) ?cat))
                  (c_keywords scenarioB_components))"
    unfolding if_P[OF cond] by blast
  from m1 have msg: "msg = error_prefix @ error_missing [[0xcf00, 0xc774, 0xc2a4]]"
    unfolding scenarioB_error by simp
  from m2 have a: "js_includes (error_prefix @ error_missing [[0xcf00, 0xc774, 0xc2a4]]) [0xcf00, 0xc774, 0xc2a4]"
    unfolding scenarioB_missing msg by simp
  have b: "\<not> js_includes (error_prefix @ error_missing [[0xcf00, 0xc774, 0xc2a4]])
           [0xc2a4, 0xb9c8, 0xd2b8, 0xd3f0]"
    unfolding scenarioB_message by simp
  have ncond: "\<not> (c_keywords phone_components = []
      \<or> maxKeywords DEFAULT_TITLE_CONFIG < length (c_keywords phone_components)
      \<or> (\<exists>t\<in>set (c_keywords phone_components).
            ascii_lower t \<notin> set (map (\<lambda>k. ascii_lower (k_term k)) [kw_phone])))"
    by (simp add: phone_components_def DEFAULT_TITLE_CONFIG_def kw_phone_def)
  from generateTitles_validation[of phone_components DEFAULT_TITLE_CONFIG ascii_lower "[kw_phone]"]
  have "\<exists>ts. generateTitles DEFAULT_TITLE_CONFIG ascii_lower phone_components [kw_phone] = Inr ts"
    unfolding if_not_P[OF ncond] .
  then have c: "\<not> isl (generateTitles DEFAULT_TITLE_CONFIG ascii_lower phone_components [kw_phone])"
    by auto
  show ?thesis by (intro conjI scenarioB_error a b c)
qed

subsection \<open>A title whose four sub-scores are all 1\<close>

lemma split_all_ones:
  "split_ws title_all_ones = [ascii ''abcdefghijklmnopqrstuvwxyzabcdefgh'', ascii ''a'']"
  by (simp add: split_ws_def title_all_ones_def ascii_def is_space_def)

lemma placement_all_ones:
  "evaluateKeywordPlacement DEFAULT_TITLE_CONFIG ascii_lower title_all_ones = 1"
  unfolding evaluateKeywordPlacement_def Let_def getKeywordsFromTitle_def split_all_ones
  by (simp add: DEFAULT_TITLE_CONFIG_def ascii_lower_def ascii_def)

lemma readability_all_ones: "evaluateReadability title_all_ones = 1"
  unfolding evaluateReadability_def Let_def split_all_ones
  by (simp add: title_all_ones_def ascii_def is_word_def is_latin_def is_digit_def is_space_def
      is_hangul_def is_upper_def)

lemma length_all_ones: "evaluateLengthScore DEFAULT_TITLE_CONFIG title_all_ones = 1"
  by (simp add: evaluateLengthScore_def Let_def DEFAULT_TITLE_CONFIG_def title_all_ones_def ascii_def)

lemma uniqueness_all_ones: "evaluateUniqueness title_all_ones = 1"
  by (simp add: evaluateUniqueness_def Let_def commonPhrases_def title_all_ones_def ascii_def
      is_digit_def)

text \<open>
  C3, evaluated on the code. Under the default configuration the four sub-scores of this title are
  all 1 and \<open>evaluateTitle\<close> returns the overall score 1, the average on the scale
  0..1, not 100.
\<close>

theorem evaluateTitle_all_ones:
  "q_breakdown (evaluateTitle DEFAULT_TITLE_CONFIG ascii_lower title_all_ones)
     = \<lparr>keywordPlacement = 1, readability = 1, b_length = 1, uniqueness = 1\<rparr>
   \<and> q_overall (evaluateTitle DEFAULT_TITLE_CONFIG ascii_lower title_all_ones) = 1"
  unfolding evaluateTitle_def Let_def placement_all_ones readability_all_ones length_all_ones
    uniqueness_all_ones
  by (simp add: Math_round_def)

end
